theory Spec2Isabelle
  imports Main "HOL-Library.Word"
begin

unbundle bit_operations_syntax

section \<open>Values shared by the modules\<close>

text \<open>
  Binary data (a Node \<open>Buffer\<close>, an ethers byte string) is a list of bytes.  Text that the
  program only concatenates, compares or hands to a digest (keys, paths, encodings in hex
  or base64, messages) is a \<open>string\<close>.  The plaintext of the key vault is the one text whose
  encoding matters; it is a list of UTF-16 code units, as a JavaScript string is
  (section on the key vault).
\<close>

type_synonym byte = "8 word"

text \<open>
  \<open>be_bytes n v\<close> is the number \<open>v\<close> in \<open>n\<close> bytes, the most significant first, and
  \<open>be_value\<close> reads such bytes; \<open>chunks n\<close> cuts a list into pieces of \<open>n\<close> elements, the
  last one possibly shorter.
\<close>

definition be_bytes :: "nat \<Rightarrow> nat \<Rightarrow> byte list" where
  "be_bytes n v = map (\<lambda>i. of_nat (v div 256 ^ (n - 1 - i))) [0..<n]"

definition be_value :: "byte list \<Rightarrow> nat" where
  "be_value bs = foldl (\<lambda>acc b. acc * 256 + unat b) 0 bs"

fun chunks :: "nat \<Rightarrow> 'a list \<Rightarrow> 'a list list" where
  "chunks n [] = []"
| "chunks n xs = (if n = 0 then [xs] else take n xs # chunks n (drop n xs))"

text \<open>
  Numbers are the integers: time stamps in milliseconds, window lengths in seconds, status
  codes.  \<open>Number_toString\<close> is the decimal rendering that a template literal gives an
  integer (below \<open>10^21\<close>, where JavaScript changes to exponent notation).
\<close>

fun decimal :: "nat \<Rightarrow> string" where
  "decimal n = (if n < 10 then [char_of (48 + n)] else decimal (n div 10) @ [char_of (48 + n mod 10)])"

declare decimal.simps [simp del]

definition Number_toString :: "int \<Rightarrow> string" where
  "Number_toString n = (if n < 0 then CHR ''-'' # decimal (nat (- n)) else decimal (nat n))"

text \<open>
  A JavaScript value as far as the program meets one: the request body that is signed
  (type \<open>unknown\<close>, absent when \<open>undefined\<close>) and the parsed JSON of a relayer response.
  An object is the list of its own properties; \<open>map_of\<close> reads one.
\<close>

datatype js_value =
    JUndefined
  | JNull
  | JBool bool
  | JNumber int
  | JString string
  | JArray "js_value list"
  | JObject "(string \<times> js_value) list"

text \<open>The test that \<open>v ? a : b\<close> and \<open>v || w\<close> make.\<close>

fun truthy :: "js_value \<Rightarrow> bool" where
  "truthy JUndefined = False"
| "truthy JNull = False"
| "truthy (JBool b) = b"
| "truthy (JNumber n) = (n \<noteq> 0)"
| "truthy (JString s) = (s \<noteq> [])"
| "truthy (JArray xs) = True"
| "truthy (JObject kvs) = True"

definition js_or :: "js_value \<Rightarrow> js_value \<Rightarrow> js_value" where
  "js_or a b = (if truthy a then a else b)"

text \<open>What a \<open>throw\<close> or a rejected promise carries: an \<open>Error\<close> with its message, or
  any other value.\<close>

datatype thrown = Error string | NonError js_value

subsection \<open>Base64 and hexadecimal text\<close>

definition base64_alphabet :: string where
  "base64_alphabet = ''ABCDEFGHIJKLMNOPQRSTUVWXYZabcdefghijklmnopqrstuvwxyz0123456789+/''"

definition base64url_alphabet :: string where
  "base64url_alphabet = ''ABCDEFGHIJKLMNOPQRSTUVWXYZabcdefghijklmnopqrstuvwxyz0123456789-_''"

text \<open>
  \<open>buf.toString('base64')\<close> and \<open>buf.toString('base64url')\<close>: three bytes give four
  characters of the alphabet; the last group of one or two bytes gives two or three
  characters, filled up with \<open>=\<close> in base64 and left short in base64url.
\<close>

fun encode64 :: "string \<Rightarrow> bool \<Rightarrow> byte list \<Rightarrow> string" where
  "encode64 al p (a # b # c # rest) =
     [al ! (unat a div 4),
      al ! ((unat a mod 4) * 16 + unat b div 16),
      al ! ((unat b mod 16) * 4 + unat c div 64),
      al ! (unat c mod 64)] @ encode64 al p rest"
| "encode64 al p [a, b] =
     [al ! (unat a div 4),
      al ! ((unat a mod 4) * 16 + unat b div 16),
      al ! ((unat b mod 16) * 4)] @ (if p then ''='' else [])"
| "encode64 al p [a] =
     [al ! (unat a div 4),
      al ! ((unat a mod 4) * 16)] @ (if p then ''=='' else [])"
| "encode64 al p [] = []"

definition base64_encode :: "byte list \<Rightarrow> string" where
  "base64_encode bs = encode64 base64_alphabet True bs"

definition base64url_encode :: "byte list \<Rightarrow> string" where
  "base64url_encode bs = encode64 base64url_alphabet False bs"

text \<open>
  \<open>Buffer.from(s, 'base64')\<close> never fails: it reads both alphabets, skips every other
  character, stops at the first \<open>=\<close>, and drops a last group of a single character.
\<close>

definition unbase64 :: "char \<Rightarrow> nat option" where
  "unbase64 c = (let n = (of_char c :: nat) in
     if 65 \<le> n \<and> n \<le> 90 then Some (n - 65)
     else if 97 \<le> n \<and> n \<le> 122 then Some (n - 71)
     else if 48 \<le> n \<and> n \<le> 57 then Some (n + 4)
     else if c = CHR ''+'' \<or> c = CHR ''-'' then Some 62
     else if c = CHR ''/'' \<or> c = CHR ''_'' then Some 63
     else None)"

fun sextets_to_bytes :: "nat list \<Rightarrow> byte list" where
  "sextets_to_bytes (a # b # c # d # rest) =
     [of_nat (a * 4 + b div 16), of_nat ((b mod 16) * 16 + c div 4), of_nat ((c mod 4) * 64 + d)]
       @ sextets_to_bytes rest"
| "sextets_to_bytes [a, b, c] = [of_nat (a * 4 + b div 16), of_nat ((b mod 16) * 16 + c div 4)]"
| "sextets_to_bytes [a, b] = [of_nat (a * 4 + b div 16)]"
| "sextets_to_bytes [a] = []"
| "sextets_to_bytes [] = []"

definition sextets :: "string \<Rightarrow> nat list" where
  "sextets s = List.map_filter unbase64 (takeWhile (\<lambda>c. c \<noteq> CHR ''='') s)"

definition base64_decode :: "string \<Rightarrow> byte list" where
  "base64_decode s = sextets_to_bytes (sextets s)"

text \<open>
  Hexadecimal text.  \<open>Buffer.from(s, 'hex')\<close> reads pairs of digits and stops at the first
  pair that is not two hexadecimal digits; \<open>is_hex\<close> is the test \<open>/^[0-9a-fA-F]+$/\<close>.
\<close>

definition hex_value :: "char \<Rightarrow> nat option" where
  "hex_value c = (let n = (of_char c :: nat) in
     if 48 \<le> n \<and> n \<le> 57 then Some (n - 48)
     else if 97 \<le> n \<and> n \<le> 102 then Some (n - 87)
     else if 65 \<le> n \<and> n \<le> 70 then Some (n - 55)
     else None)"

fun hex_decode :: "string \<Rightarrow> byte list" where
  "hex_decode (a # b # rest) =
     (case (hex_value a, hex_value b) of
        (Some x, Some y) \<Rightarrow> of_nat (16 * x + y) # hex_decode rest
      | _ \<Rightarrow> [])"
| "hex_decode [a] = []"
| "hex_decode [] = []"

definition is_hex :: "string \<Rightarrow> bool" where
  "is_hex s = (s \<noteq> [] \<and> list_all (\<lambda>c. hex_value c \<noteq> None) s)"

section \<open>HMAC request signing (crypto/hmac.ts)\<close>

datatype http_method = GET | POST | PUT | DELETE

fun method_string :: "http_method \<Rightarrow> string" where
  "method_string GET = ''GET''"
| "method_string POST = ''POST''"
| "method_string PUT = ''PUT''"
| "method_string DELETE = ''DELETE''"

record HmacSignatureInput =
  httpMethod :: http_method
  path :: string
  body :: js_value
  timestamp :: int
  secret :: string

text \<open>
  \<open>createHmacSignature\<close>.  Two functions of the platform are parameters:
  \<open>hmac secret message\<close> is the digest of \<open>crypto.createHmac('sha256', secret).update(message)\<close>
  and \<open>stringify\<close> is \<open>JSON.stringify\<close>.
\<close>

definition createHmacSignature ::
  "(string \<Rightarrow> string \<Rightarrow> byte list) \<Rightarrow> (js_value \<Rightarrow> string) \<Rightarrow> HmacSignatureInput \<Rightarrow> string" where
  "createHmacSignature hmac stringify input =
     (let bodyString = (if truthy (body input) then stringify (body input) else '''');
          message = Number_toString (timestamp input) @ method_string (httpMethod input)
                      @ path input @ bodyString
      in base64_encode (hmac (secret input) message))"

record HmacVerdict =
  valid :: bool
  reason :: "string option"

text \<open>
  \<open>verifyHmacSignature\<close>.  \<open>now\<close> is the value of \<open>Date.now()\<close>; the input's own secret
  field, if any, is replaced by the argument, as \<open>{ ...input, secret }\<close> does.
  \<open>crypto.timingSafeEqual\<close> is called on buffers of one length and is equality there.
\<close>

definition verifyHmacSignature ::
  "(string \<Rightarrow> string \<Rightarrow> byte list) \<Rightarrow> (js_value \<Rightarrow> string) \<Rightarrow> int
     \<Rightarrow> string \<Rightarrow> HmacSignatureInput \<Rightarrow> string \<Rightarrow> int \<Rightarrow> HmacVerdict" where
  "verifyHmacSignature hmac stringify now signature input secret' validityWindowSeconds =
     (let requestTime = timestamp input;
          timeDiff = \<bar>now - requestTime\<bar>
      in if timeDiff > validityWindowSeconds * 1000 then
           \<lparr>valid = False,
            reason = Some (''Request timestamp expired. Time difference: '' @ Number_toString timeDiff
                           @ ''ms, max allowed: '' @ Number_toString (validityWindowSeconds * 1000)
                           @ ''ms'')\<rparr>
         else
           let expectedSignature = createHmacSignature hmac stringify (input\<lparr>secret := secret'\<rparr>);
               signatureBuffer = base64_decode signature;
               expectedBuffer = base64_decode expectedSignature
           in if length signatureBuffer \<noteq> length expectedBuffer then
                \<lparr>valid = False, reason = Some ''Invalid signature length''\<rparr>
              else if signatureBuffer \<noteq> expectedBuffer then
                \<lparr>valid = False, reason = Some ''Signature mismatch''\<rparr>
              else \<lparr>valid = True, reason = None\<rparr>)"

subsection \<open>API keys\<close>

record ApiKey =
  key :: string
  keyPrefix :: string
  keyHash :: string

text \<open>
  \<open>sha256_hex s\<close> is \<open>crypto.createHash('sha256').update(s).digest('hex')\<close>, a parameter;
  \<open>randomBytes\<close> is the value that \<open>crypto.randomBytes(24)\<close> returned.
  \<open>key.substring(0, 12)\<close> is \<open>take 12\<close>.
\<close>

definition hashApiKey :: "(string \<Rightarrow> string) \<Rightarrow> string \<Rightarrow> string" where
  "hashApiKey sha256_hex k = sha256_hex k"

definition generateApiKey :: "(string \<Rightarrow> string) \<Rightarrow> byte list \<Rightarrow> string \<Rightarrow> ApiKey" where
  "generateApiKey sha256_hex randomBytes prefix =
     (let randomPart = base64url_encode randomBytes;
          k = prefix @ ''_'' @ randomPart
      in \<lparr>key = k, keyPrefix = take 12 k, keyHash = sha256_hex k\<rparr>)"

section \<open>The relayer client (relayer/client.ts)\<close>

text \<open>
  A transaction for the relayer; the field \<open>from\<close> of the source is \<open>fromAddress\<close> here.
\<close>

record SafeTransaction =
  fromAddress :: string
  to :: string
  proxyWallet :: string
  data :: string
  signature :: string

record RelayerConfig =
  endpoint :: string
  timeout :: "int option"

record RelayerClient =
  client_endpoint :: string
  client_timeout :: int

text \<open>The constructor: \<open>config.timeout || 30000\<close> takes the default for a missing or zero
  timeout.\<close>

definition RelayerClient_new :: "RelayerConfig \<Rightarrow> RelayerClient" where
  "RelayerClient_new config =
     \<lparr>client_endpoint = endpoint config,
      client_timeout = (case timeout config of
                          None \<Rightarrow> 30000
                        | Some t \<Rightarrow> if t = 0 then 30000 else t)\<rparr>"

record RelayerResponse =
  success :: bool
  txHash :: "js_value option"
  error :: "string option"

text \<open>
  The network is the environment.  An awaited promise is resolved with a value or rejected
  with what was thrown.  \<open>fetch\<close> is a parameter: it maps the request that \<open>relay\<close> sends to
  the outcome of the call; a connection failure and the abort after the timeout are
  rejections.  A response gives its status and the outcomes of \<open>response.text()\<close> and
  \<open>response.json()\<close>.
\<close>

datatype 'a outcome = Resolved 'a | Rejected thrown

record http_request =
  url :: string
  verb :: http_method
  content_type :: string
  request_body :: string
  abort_after :: int

record http_response =
  status :: nat
  text_body :: "string outcome"
  json_body :: "js_value outcome"

definition ok :: "http_response \<Rightarrow> bool" where
  "ok r = (200 \<le> status r \<and> status r \<le> 299)"

text \<open>
  Reading a property of a parsed JSON value as \<open>result.k\<close> does: a \<open>TypeError\<close> on
  \<open>null\<close> and \<open>undefined\<close>, the property or \<open>undefined\<close> on an object, \<open>undefined\<close> on
  the other values (no key of the program is a built-in property of theirs).
\<close>

definition cannot_read :: "string \<Rightarrow> string \<Rightarrow> thrown" where
  "cannot_read what k =
     Error (''Cannot read properties of '' @ what @ '' (reading '' @ [CHR 0x27] @ k @ [CHR 0x27] @ '')'')"

fun get_property :: "js_value \<Rightarrow> string \<Rightarrow> thrown + js_value" where
  "get_property JUndefined k = Inl (cannot_read ''undefined'' k)"
| "get_property JNull k = Inl (cannot_read ''null'' k)"
| "get_property (JObject kvs) k = Inr (case map_of kvs k of None \<Rightarrow> JUndefined | Some v \<Rightarrow> v)"
| "get_property v k = Inr JUndefined"

definition transaction_json :: "SafeTransaction \<Rightarrow> js_value" where
  "transaction_json t =
     JObject [(''from'', JString (fromAddress t)), (''to'', JString (to t)),
              (''proxyWallet'', JString (proxyWallet t)), (''data'', JString (data t)),
              (''signature'', JString (signature t))]"

definition relay_request :: "(js_value \<Rightarrow> string) \<Rightarrow> RelayerClient \<Rightarrow> SafeTransaction \<Rightarrow> http_request" where
  "relay_request stringify client transaction =
     \<lparr>url = client_endpoint client @ ''/relay'',
      verb = POST,
      content_type = ''application/json'',
      request_body = stringify (transaction_json transaction),
      abort_after = client_timeout client\<rparr>"

text \<open>The body of the \<open>try\<close> block of \<open>relay\<close>; \<open>Inl\<close> is a throw inside it.\<close>

definition relay_try ::
  "(http_request \<Rightarrow> http_response outcome) \<Rightarrow> (js_value \<Rightarrow> string) \<Rightarrow> RelayerClient
     \<Rightarrow> SafeTransaction \<Rightarrow> thrown + RelayerResponse" where
  "relay_try fetch stringify client transaction =
     (case fetch (relay_request stringify client transaction) of
        Rejected e \<Rightarrow> Inl e
      | Resolved response \<Rightarrow>
          if \<not> ok response then
            (case text_body response of
               Rejected e \<Rightarrow> Inl e
             | Resolved err \<Rightarrow>
                 Inr \<lparr>success = False, txHash = None,
                      error = Some (''Relayer error: '' @ Number_toString (int (status response))
                                    @ '' - '' @ err)\<rparr>)
          else
            (case json_body response of
               Rejected e \<Rightarrow> Inl e
             | Resolved result \<Rightarrow>
                 (case get_property result ''txHash'' of
                    Inl e \<Rightarrow> Inl e
                  | Inr h \<Rightarrow>
                      if truthy h then Inr \<lparr>success = True, txHash = Some h, error = None\<rparr>
                      else (case get_property result ''transactionHash'' of
                              Inl e \<Rightarrow> Inl e
                            | Inr h' \<Rightarrow> Inr \<lparr>success = True, txHash = Some h', error = None\<rparr>))))"

text \<open>The \<open>catch\<close> block: \<open>error instanceof Error ? error.message : 'Unknown relayer error'\<close>.\<close>

definition relay_catch :: "thrown \<Rightarrow> RelayerResponse" where
  "relay_catch e =
     \<lparr>success = False, txHash = None,
      error = Some (case e of Error m \<Rightarrow> m | NonError v \<Rightarrow> ''Unknown relayer error'')\<rparr>"

text \<open>\<open>relay\<close>: \<open>Inr\<close> is the value the promise resolves with, \<open>Inl\<close> would be an exception
  that reaches the caller.\<close>

definition relay ::
  "(http_request \<Rightarrow> http_response outcome) \<Rightarrow> (js_value \<Rightarrow> string) \<Rightarrow> RelayerClient
     \<Rightarrow> SafeTransaction \<Rightarrow> thrown + RelayerResponse" where
  "relay fetch stringify client transaction =
     (case relay_try fetch stringify client transaction of
        Inl e \<Rightarrow> Inr (relay_catch e)
      | Inr r \<Rightarrow> Inr r)"

text \<open>The two convenience calls build a transaction and relay it.\<close>

definition deploySafe ::
  "(http_request \<Rightarrow> http_response outcome) \<Rightarrow> (js_value \<Rightarrow> string) \<Rightarrow> RelayerClient
     \<Rightarrow> string \<Rightarrow> string \<Rightarrow> string \<Rightarrow> string \<Rightarrow> thrown + RelayerResponse" where
  "deploySafe fetch stringify client ownerAddress proxyWallet' proxyFactory signature' =
     relay fetch stringify client
       \<lparr>fromAddress = ownerAddress, to = proxyFactory, proxyWallet = proxyWallet',
        data = ''0x'', signature = signature'\<rparr>"

definition executeTransaction ::
  "(http_request \<Rightarrow> http_response outcome) \<Rightarrow> (js_value \<Rightarrow> string) \<Rightarrow> RelayerClient
     \<Rightarrow> string \<Rightarrow> string \<Rightarrow> string \<Rightarrow> string \<Rightarrow> string \<Rightarrow> thrown + RelayerResponse" where
  "executeTransaction fetch stringify client safeAddress to' data' ownerAddress signature' =
     relay fetch stringify client
       \<lparr>fromAddress = ownerAddress, to = to', proxyWallet = safeAddress,
        data = data', signature = signature'\<rparr>"

section \<open>The key vault (crypto/key-vault.ts)\<close>

subsection \<open>Construction\<close>

text \<open>
  The \<open>masterKey\<close> of the configuration is a \<open>Buffer\<close>, a string, or a value of another
  type; the configuration may also have no such property (\<open>None\<close>).
\<close>

datatype master_key = KeyBuffer "byte list" | KeyString string | KeyOther js_value

record KeyVault =
  masterKey :: "byte list"

definition parseKey :: "string \<Rightarrow> thrown + byte list" where
  "parseKey k =
     (if is_hex k \<and> length k = 64 then Inr (hex_decode k)
      else let base64 = base64_decode k
           in if length base64 = 32 then Inr base64
              else Inl (Error ''Master key must be 32 bytes as hex (64 chars) or base64 (44 chars)''))"

definition validate_key_length :: "byte list \<Rightarrow> thrown + KeyVault" where
  "validate_key_length k =
     (if length k \<noteq> 32 then
        Inl (Error (''Master key must be 32 bytes (256 bits), got ''
                    @ Number_toString (int (length k)) @ '' bytes''))
      else Inr \<lparr>masterKey = k\<rparr>)"

definition KeyVault_constructor :: "master_key option \<Rightarrow> thrown + KeyVault" where
  "KeyVault_constructor config =
     (case config of
        None \<Rightarrow> Inl (Error ''masterKey is required'')
      | Some (KeyBuffer b) \<Rightarrow> validate_key_length b
      | Some (KeyString s) \<Rightarrow>
          (case parseKey s of Inl e \<Rightarrow> Inl e | Inr b \<Rightarrow> validate_key_length b)
      | Some (KeyOther v) \<Rightarrow> Inl (Error ''masterKey must be a Buffer or string''))"

subsection \<open>Text as bytes\<close>

text \<open>
  A JavaScript string is a list of UTF-16 code units.  Writing it as UTF-8
  (\<open>cipher.update(plaintext, 'utf8', ...)\<close>) encodes a surrogate pair as one code point of
  four bytes and puts U+FFFD in the place of a surrogate that has no partner.
\<close>

type_synonym js_string = "16 word list"

definition is_high_surrogate :: "16 word \<Rightarrow> bool" where
  "is_high_surrogate u = (0xD800 \<le> unat u \<and> unat u \<le> 0xDBFF)"

definition is_low_surrogate :: "16 word \<Rightarrow> bool" where
  "is_low_surrogate u = (0xDC00 \<le> unat u \<and> unat u \<le> 0xDFFF)"

text \<open>\<open>String.prototype.isWellFormed\<close>: every surrogate is half of a pair.\<close>

fun well_formed :: "js_string \<Rightarrow> bool" where
  "well_formed (u # l # rest) =
     (if is_high_surrogate u then is_low_surrogate l \<and> well_formed rest
      else \<not> is_low_surrogate u \<and> well_formed (l # rest))"
| "well_formed [u] = (\<not> is_high_surrogate u \<and> \<not> is_low_surrogate u)"
| "well_formed [] = True"

definition utf8_bytes :: "nat \<Rightarrow> byte list" where
  "utf8_bytes c =
     (if c < 0x80 then [of_nat c]
      else if c < 0x800 then [of_nat (0xC0 + c div 64), of_nat (0x80 + c mod 64)]
      else if c < 0x10000 then
        [of_nat (0xE0 + c div 4096), of_nat (0x80 + c div 64 mod 64), of_nat (0x80 + c mod 64)]
      else
        [of_nat (0xF0 + c div 262144), of_nat (0x80 + c div 4096 mod 64),
         of_nat (0x80 + c div 64 mod 64), of_nat (0x80 + c mod 64)])"

definition pair_code_point :: "16 word \<Rightarrow> 16 word \<Rightarrow> nat" where
  "pair_code_point u l = 0x10000 + (unat u - 0xD800) * 1024 + (unat l - 0xDC00)"

fun utf8_encode :: "js_string \<Rightarrow> byte list" where
  "utf8_encode (u # l # rest) =
     (if is_high_surrogate u then
        (if is_low_surrogate l then utf8_bytes (pair_code_point u l) @ utf8_encode rest
         else utf8_bytes 0xFFFD @ utf8_encode (l # rest))
      else if is_low_surrogate u then utf8_bytes 0xFFFD @ utf8_encode (l # rest)
      else utf8_bytes (unat u) @ utf8_encode (l # rest))"
| "utf8_encode [u] =
     (if is_high_surrogate u \<or> is_low_surrogate u then utf8_bytes 0xFFFD
      else utf8_bytes (unat u))"
| "utf8_encode [] = []"

text \<open>
  Reading UTF-8 (\<open>buf.toString('utf8')\<close>) never fails.  The decoder is the state machine of
  the Encoding Standard: the state is \<open>None\<close> between code points and otherwise the number
  of bytes still needed, the bits read so far and the bounds of the next byte; a byte
  that cannot continue a sequence ends it with U+FFFD and is read again.
\<close>

definition utf16_units :: "nat \<Rightarrow> js_string" where
  "utf16_units c =
     (if c < 0x10000 then [of_nat c]
      else [of_nat (0xD800 + (c - 0x10000) div 1024), of_nat (0xDC00 + (c - 0x10000) mod 1024)])"

function utf8_decoder :: "(nat \<times> nat \<times> nat \<times> nat) option \<Rightarrow> byte list \<Rightarrow> js_string" where
  "utf8_decoder None [] = []"
| "utf8_decoder (Some s) [] = [0xFFFD]"
| "utf8_decoder None (b # bs) =
     (let n = unat b in
      if n \<le> 0x7F then of_nat n # utf8_decoder None bs
      else if 0xC2 \<le> n \<and> n \<le> 0xDF then utf8_decoder (Some (1, n - 0xC0, 0x80, 0xBF)) bs
      else if 0xE0 \<le> n \<and> n \<le> 0xEF then
        utf8_decoder (Some (2, n - 0xE0, if n = 0xE0 then 0xA0 else 0x80,
                                       if n = 0xED then 0x9F else 0xBF)) bs
      else if 0xF0 \<le> n \<and> n \<le> 0xF4 then
        utf8_decoder (Some (3, n - 0xF0, if n = 0xF0 then 0x90 else 0x80,
                                       if n = 0xF4 then 0x8F else 0xBF)) bs
      else 0xFFFD # utf8_decoder None bs)"
| "utf8_decoder (Some (needed, cp, lower, upper)) (b # bs) =
     (let n = unat b in
      if n < lower \<or> upper < n then 0xFFFD # utf8_decoder None (b # bs)
      else if needed \<le> 1 then utf16_units (cp * 64 + (n - 0x80)) @ utf8_decoder None bs
      else utf8_decoder (Some (needed - 1, cp * 64 + (n - 0x80), 0x80, 0xBF)) bs)"
  by pat_completeness auto
termination
  by (relation "measure (\<lambda>(s, bs). 2 * length bs + (case s of None \<Rightarrow> 0 | Some x \<Rightarrow> 1))") auto

definition utf8_decode :: "byte list \<Rightarrow> js_string" where
  "utf8_decode bs = utf8_decoder None bs"

subsection \<open>AES-256-GCM\<close>

text \<open>
  The cipher is GCM (NIST SP 800-38D) over the block cipher AES-256, which is a parameter:
  \<open>aes key block\<close> is the encryption of one 16-byte block.  A block is a 128-bit word,
  its first byte the most significant.
\<close>

type_synonym block = "128 word"

definition block_of_bytes :: "byte list \<Rightarrow> block" where
  "block_of_bytes bs = of_nat (be_value (take 16 (bs @ replicate 16 0)))"

definition bytes_of_block :: "block \<Rightarrow> byte list" where
  "bytes_of_block w = be_bytes 16 (unat w)"

text \<open>The product in \<open>GF(2^128)\<close> (algorithm 1 of SP 800-38D; bit 0 of the standard is
  the most significant bit of the word) and the hash GHASH built on it.\<close>

definition gf_step :: "block \<Rightarrow> block \<times> block \<Rightarrow> nat \<Rightarrow> block \<times> block" where
  "gf_step X ZV i =
     (let Z = fst ZV; V = snd ZV
      in (if bit X (127 - i) then Z XOR V else Z,
          if bit V 0 then drop_bit 1 V XOR push_bit 120 0xE1 else drop_bit 1 V))"

definition gf_mult :: "block \<Rightarrow> block \<Rightarrow> block" where
  "gf_mult X Y = fst (foldl (gf_step X) (0, Y) [0..<128])"

definition ghash :: "block \<Rightarrow> byte list \<Rightarrow> block" where
  "ghash H bs = foldl (\<lambda>Y X. gf_mult (Y XOR X) H) 0 (map block_of_bytes (chunks 16 bs))"

definition pad16 :: "byte list \<Rightarrow> byte list" where
  "pad16 bs = bs @ replicate ((16 - length bs mod 16) mod 16) 0"

definition inc32 :: "block \<Rightarrow> block" where
  "inc32 cb = (cb AND NOT 0xFFFFFFFF) OR ((cb + 1) AND 0xFFFFFFFF)"

text \<open>Counter mode: each piece of at most 16 bytes is combined with the encryption of
  the next counter block.\<close>

fun gctr_blocks :: "(block \<Rightarrow> block) \<Rightarrow> block \<Rightarrow> byte list list \<Rightarrow> byte list" where
  "gctr_blocks E cb [] = []"
| "gctr_blocks E cb (x # xs) = map2 (XOR) x (bytes_of_block (E cb)) @ gctr_blocks E (inc32 cb) xs"

definition gctr :: "(block \<Rightarrow> block) \<Rightarrow> block \<Rightarrow> byte list \<Rightarrow> byte list" where
  "gctr E icb xs = gctr_blocks E icb (chunks 16 xs)"

definition gcm_J0 :: "block \<Rightarrow> byte list \<Rightarrow> block" where
  "gcm_J0 H nonce =
     (if length nonce = 12 then block_of_bytes (nonce @ [0, 0, 0, 1])
      else ghash H (pad16 nonce @ replicate 8 0 @ be_bytes 8 (8 * length nonce)))"

definition gcm_tag :: "(block \<Rightarrow> block) \<Rightarrow> block \<Rightarrow> block \<Rightarrow> byte list \<Rightarrow> byte list \<Rightarrow> byte list" where
  "gcm_tag E H J0 aad ciphertext =
     take 16 (gctr E J0 (bytes_of_block
       (ghash H (pad16 aad @ pad16 ciphertext @ be_bytes 8 (8 * length aad)
                 @ be_bytes 8 (8 * length ciphertext)))))"

definition gcm_encrypt :: "(block \<Rightarrow> block) \<Rightarrow> byte list \<Rightarrow> byte list \<Rightarrow> byte list \<times> byte list" where
  "gcm_encrypt E nonce plain =
     (let H = E 0; J0 = gcm_J0 H nonce; ciphertext = gctr E (inc32 J0) plain
      in (ciphertext, gcm_tag E H J0 [] ciphertext))"

definition gcm_decrypt :: "(block \<Rightarrow> block) \<Rightarrow> byte list \<Rightarrow> byte list \<Rightarrow> byte list \<Rightarrow> byte list option" where
  "gcm_decrypt E nonce ciphertext tag =
     (let H = E 0; J0 = gcm_J0 H nonce
      in if gcm_tag E H J0 [] ciphertext = tag then Some (gctr E (inc32 J0) ciphertext)
         else None)"

subsection \<open>Encryption and decryption\<close>

record EncryptedData =
  encrypted :: string
  iv :: string
  authTag :: string

definition ivLength :: nat where "ivLength = 16"

definition authTagLength :: nat where "authTagLength = 16"

text \<open>\<open>crypto.createCipheriv\<close> and \<open>crypto.createDecipheriv\<close> for \<open>aes-256-gcm\<close> throw on a
  key that is not 32 bytes long and on an empty initialization vector.\<close>

definition create_cipher ::
  "(byte list \<Rightarrow> block \<Rightarrow> block) \<Rightarrow> byte list \<Rightarrow> byte list \<Rightarrow> thrown + (block \<Rightarrow> block)" where
  "create_cipher aes k nonce =
     (if length k \<noteq> 32 then Inl (Error ''Invalid key length'')
      else if nonce = [] then Inl (Error ''Invalid initialization vector'')
      else Inr (aes k))"

text \<open>\<open>encrypt\<close>; \<open>random_iv\<close> is the value of \<open>crypto.randomBytes(this.ivLength)\<close>.  The
  two pieces of base64 text that \<open>update\<close> and \<open>final\<close> return make up the base64 text of
  the whole ciphertext.\<close>

definition encrypt ::
  "(byte list \<Rightarrow> block \<Rightarrow> block) \<Rightarrow> KeyVault \<Rightarrow> byte list \<Rightarrow> js_string \<Rightarrow> thrown + EncryptedData" where
  "encrypt aes vault random_iv plaintext =
     (case create_cipher aes (masterKey vault) random_iv of
        Inl e \<Rightarrow> Inl e
      | Inr E \<Rightarrow>
          (let (ciphertext, tag) = gcm_encrypt E random_iv (utf8_encode plaintext)
           in Inr \<lparr>encrypted = base64_encode ciphertext,
                   iv = base64_encode random_iv,
                   authTag = base64_encode tag\<rparr>))"

text \<open>\<open>decrypt\<close>: \<open>setAuthTag\<close> throws on a tag that is not \<open>authTagLength\<close> bytes long, and
  \<open>final\<close> throws when the tag does not verify.\<close>

definition decrypt ::
  "(byte list \<Rightarrow> block \<Rightarrow> block) \<Rightarrow> KeyVault \<Rightarrow> EncryptedData \<Rightarrow> thrown + js_string" where
  "decrypt aes vault encryptedData =
     (let iv_bytes = base64_decode (iv encryptedData);
          authTag_bytes = base64_decode (authTag encryptedData);
          encrypted_bytes = base64_decode (encrypted encryptedData)
      in case create_cipher aes (masterKey vault) iv_bytes of
           Inl e \<Rightarrow> Inl e
         | Inr E \<Rightarrow>
             if length authTag_bytes \<noteq> authTagLength then
               Inl (Error (''Invalid authentication tag length: ''
                           @ Number_toString (int (length authTag_bytes))))
             else (case gcm_decrypt E iv_bytes encrypted_bytes authTag_bytes of
                     None \<Rightarrow> Inl (Error ''Unsupported state or unable to authenticate data'')
                   | Some decrypted \<Rightarrow> Inr (utf8_decode decrypted)))"

section \<open>Keccak-256 (ethers.utils.keccak256)\<close>

text \<open>
  The hash of ethers is Keccak-256 with the original padding: the sponge over
  Keccak-f[1600] with rate 136 bytes, capacity 512 bits and 32 bytes of output.  The state
  is 25 lanes; lane \<open>(x, y)\<close> has index \<open>x + 5 * y\<close>.  A lane is its 64 bits, the least
  significant first, so that a rotation of the lane is a rotation of the list.
\<close>

type_synonym lane = "bool list"

fun lxor :: "lane \<Rightarrow> lane \<Rightarrow> lane" where
  "lxor (a # as) (b # bs) = (a \<noteq> b) # lxor as bs"
| "lxor _ _ = []"

fun lnotand :: "lane \<Rightarrow> lane \<Rightarrow> lane" where
  "lnotand (a # as) (b # bs) = (\<not> a \<and> b) # lnotand as bs"
| "lnotand _ _ = []"

definition rol :: "nat \<Rightarrow> lane \<Rightarrow> lane" where
  "rol n l = drop (64 - n) l @ take (64 - n) l"

definition bits_of :: "'a::len word \<Rightarrow> bool list" where
  "bits_of w = map (bit w) [0..<LENGTH('a)]"

definition byte_of_bits :: "bool list \<Rightarrow> byte" where
  "byte_of_bits bs = foldr (\<lambda>b acc. of_bool b + 2 * acc) bs 0"

definition rotation_offsets :: "nat list" where
  "rotation_offsets =
     [0, 1, 62, 28, 27,  36, 44, 6, 55, 20,  3, 10, 43, 25, 39,
      41, 45, 15, 21, 8,  18, 2, 61, 56, 14]"

definition round_constants :: "64 word list" where
  "round_constants =
     [0x0000000000000001, 0x0000000000008082, 0x800000000000808A, 0x8000000080008000,
      0x000000000000808B, 0x0000000080000001, 0x8000000080008081, 0x8000000000008009,
      0x000000000000008A, 0x0000000000000088, 0x0000000080008009, 0x000000008000000A,
      0x000000008000808B, 0x800000000000008B, 0x8000000000008089, 0x8000000000008003,
      0x8000000000008002, 0x8000000000000080, 0x000000000000800A, 0x800000008000000A,
      0x8000000080008081, 0x8000000000008080, 0x0000000080000001, 0x8000000080008008]"

definition theta_C :: "lane list \<Rightarrow> lane list" where
  "theta_C st =
     map (\<lambda>x. lxor (st ! x) (lxor (st ! (x + 5)) (lxor (st ! (x + 10))
                 (lxor (st ! (x + 15)) (st ! (x + 20)))))) [0..<5]"

definition theta_D :: "lane list \<Rightarrow> lane list" where
  "theta_D C = map (\<lambda>x. lxor (C ! ((x + 4) mod 5)) (rol 1 (C ! ((x + 1) mod 5)))) [0..<5]"

definition theta_apply :: "lane list \<Rightarrow> lane list \<Rightarrow> lane list" where
  "theta_apply D st = map (\<lambda>i. lxor (st ! i) (D ! (i mod 5))) [0..<25]"

definition theta :: "lane list \<Rightarrow> lane list" where
  "theta st = theta_apply (theta_D (theta_C st)) st"

text \<open>\<open>rho\<close> and \<open>pi\<close> together: lane \<open>(x, y)\<close>, rotated by its offset, goes to
  \<open>(y, 2x + 3y)\<close>; so the lane at \<open>(X, Y)\<close> comes from \<open>(X + 3Y, X)\<close>.\<close>

definition rho_pi :: "lane list \<Rightarrow> lane list" where
  "rho_pi st =
     map (\<lambda>j. let X = j mod 5; Y = j div 5; x = (X + 3 * Y) mod 5; y = X
              in rol (rotation_offsets ! (x + 5 * y)) (st ! (x + 5 * y))) [0..<25]"

definition chi :: "lane list \<Rightarrow> lane list" where
  "chi st =
     map (\<lambda>j. let x = j mod 5; y = j div 5
              in lxor (st ! j) (lnotand (st ! ((x + 1) mod 5 + 5 * y)) (st ! ((x + 2) mod 5 + 5 * y))))
         [0..<25]"

definition xor_first :: "lane \<Rightarrow> lane list \<Rightarrow> lane list" where
  "xor_first l st = st[0 := lxor (st ! 0) l]"

definition iota :: "64 word \<Rightarrow> lane list \<Rightarrow> lane list" where
  "iota rc st = xor_first (bits_of rc) st"

definition keccak_round :: "lane list \<Rightarrow> 64 word \<Rightarrow> lane list" where
  "keccak_round st rc = iota rc (chi (rho_pi (theta st)))"

definition keccak_f :: "lane list \<Rightarrow> lane list" where
  "keccak_f st = foldl keccak_round st round_constants"

definition pad :: "byte list \<Rightarrow> byte list" where
  "pad m = (let q = 136 - length m mod 136
            in if q = 1 then m @ [0x81] else m @ [0x01] @ replicate (q - 2) 0 @ [0x80])"

definition zero_lane :: lane where
  "zero_lane = replicate 64 False"

definition block_lanes :: "byte list \<Rightarrow> lane list" where
  "block_lanes blk = map (\<lambda>bs. concat (map bits_of bs)) (chunks 8 blk) @ replicate 8 zero_lane"

definition absorb :: "lane list \<Rightarrow> byte list \<Rightarrow> lane list" where
  "absorb st blk = keccak_f (map2 lxor st (block_lanes blk))"

definition squeeze :: "lane list \<Rightarrow> byte list" where
  "squeeze st = map byte_of_bits (chunks 8 (concat (take 4 st)))"

definition keccak256 :: "byte list \<Rightarrow> byte list" where
  "keccak256 m = squeeze (foldl absorb (replicate 25 zero_lane) (chunks 136 (pad m)))"

text \<open>A list of \<open>n\<close> lanes of 64 bits each; the states of the permutation are such lists
  of 25 lanes.\<close>

definition lanes_ok :: "nat \<Rightarrow> lane list \<Rightarrow> bool" where
  "lanes_ok n st = (length st = n \<and> list_all (\<lambda>l. length l = 64) st)"

definition ascii :: "string \<Rightarrow> byte list" where
  "ascii s = map (\<lambda>c. of_nat (of_char c)) s"

section \<open>ABI encoding (ethers.utils)\<close>

text \<open>
  An address is a 20-byte value and a \<open>uint256\<close> a 32-byte one; ethers has checked and
  parsed the strings of the source by the time it encodes them, and the address it
  returns is the checksummed spelling of such a value.
\<close>

type_synonym address = "160 word"

text \<open>The values the program encodes: \<open>uint256\<close>, \<open>address\<close>, \<open>bytes\<close> and \<open>address[]\<close>; the
  last two are dynamic, with an offset in the head and the content in the tail.\<close>

datatype abi_value =
    AUint256 "256 word"
  | AAddress address
  | ABytes "byte list"
  | AAddressArray "address list"

fun is_dynamic :: "abi_value \<Rightarrow> bool" where
  "is_dynamic (AUint256 v) = False"
| "is_dynamic (AAddress a) = False"
| "is_dynamic (ABytes bs) = True"
| "is_dynamic (AAddressArray as) = True"

fun abi_content :: "abi_value \<Rightarrow> byte list" where
  "abi_content (AUint256 v) = be_bytes 32 (unat v)"
| "abi_content (AAddress a) = be_bytes 32 (unat a)"
| "abi_content (ABytes bs) =
     be_bytes 32 (length bs) @ bs @ replicate ((32 - length bs mod 32) mod 32) 0"
| "abi_content (AAddressArray as) =
     be_bytes 32 (length as) @ concat (map (\<lambda>a. be_bytes 32 (unat a)) as)"

fun abi_heads_tails :: "nat \<Rightarrow> abi_value list \<Rightarrow> byte list \<times> byte list" where
  "abi_heads_tails offset [] = ([], [])"
| "abi_heads_tails offset (v # vs) =
     (if is_dynamic v then
        (let (heads, tails) = abi_heads_tails (offset + length (abi_content v)) vs
         in (be_bytes 32 offset @ heads, abi_content v @ tails))
      else
        (let (heads, tails) = abi_heads_tails offset vs
         in (abi_content v @ heads, tails)))"

text \<open>\<open>defaultAbiCoder.encode(types, values)\<close>.\<close>

definition abi_encode :: "abi_value list \<Rightarrow> byte list" where
  "abi_encode vs = (let (heads, tails) = abi_heads_tails (32 * length vs) vs in heads @ tails)"

text \<open>\<open>new Interface([fragment]).encodeFunctionData(name, values)\<close>: the first four bytes of
  the hash of the canonical signature of the fragment, then the encoded values.\<close>

definition function_selector :: "string \<Rightarrow> byte list" where
  "function_selector sig = take 4 (keccak256 (ascii sig))"

definition encodeFunctionData :: "string \<Rightarrow> abi_value list \<Rightarrow> byte list" where
  "encodeFunctionData sig vs = function_selector sig @ abi_encode vs"

text \<open>\<open>solidityPack(types, values)\<close>: the values one after the other, without padding of
  \<open>bytes\<close>.\<close>

datatype packed_value = PBytes32 "byte list" | PUint256 "256 word" | PBytes "byte list"

fun packed :: "packed_value \<Rightarrow> byte list" where
  "packed (PBytes32 h) = h"
| "packed (PUint256 v) = be_bytes 32 (unat v)"
| "packed (PBytes bs) = bs"

definition solidityPack :: "packed_value list \<Rightarrow> byte list" where
  "solidityPack vs = concat (map packed vs)"

text \<open>\<open>getCreate2Address(from, salt, initCodeHash)\<close>: the last 20 bytes of the hash of
  \<open>0xff\<close>, the deployer, the salt and the hash of the init code.  The library refuses a
  \<open>bytes32\<close> value, a salt or a code hash that is not 32 bytes long; the routines below
  pass hashes, which are 32 bytes long (\<open>length_keccak256\<close>).\<close>

definition getCreate2Address :: "address \<Rightarrow> byte list \<Rightarrow> byte list \<Rightarrow> address" where
  "getCreate2Address deployer salt initCodeHash =
     of_nat (be_value (drop 12 (keccak256 ([0xff] @ be_bytes 20 (unat deployer) @ salt @ initCodeHash))))"

section \<open>Safe addresses (wallet/key-generator.ts, wallet/safe-deployer.ts)\<close>

record polygon_contracts =
  safeProxyFactory :: address
  safeSingleton :: address

definition POLYGON_CONTRACTS :: polygon_contracts where
  "POLYGON_CONTRACTS =
     \<lparr>safeProxyFactory = 0xaacFeEa03eb1561C4e67d661e40682Bd20E3541b,
      safeSingleton = 0x69f4D1788e39c87893C980c06EdF4b7f686e2938\<rparr>"

text \<open>The creation code of the proxy; the two routines carry the same literal.\<close>

definition proxy_creation_bytecode :: "byte list" where
  "proxy_creation_bytecode = hex_decode (
      ''608060405234801561001057600080fd5b506040516101e63803806101e6833981810160405260208110156100335760'' @
      ''0080fd5b8101908080519060200190929190505050600073ffffffffffffffffffffffffffffffffffffffff168173ff'' @
      ''ffffffffffffffffffffffffffffffffffffff1614156100ca576040517f08c379a00000000000000000000000000000'' @
      ''000000000000000000000000000081526004018080602001828103825260228152602001806101c46022913960400191'' @
      ''505060405180910390fd5b806000806101000a81548173ffffffffffffffffffffffffffffffffffffffff0219169083'' @
      ''73ffffffffffffffffffffffffffffffffffffffff1602179055505060ab806101196000396000f3fe608060405273ff'' @
      ''ffffffffffffffffffffffffffffffffffffff600054167fa619486e0000000000000000000000000000000000000000'' @
      ''000000000000000060003514156050578060005260206000f35b3660008037600080366000845af43d6000803e600081'' @
      ''14156070573d6000fd5b3d6000f3fea264697066735822122003d1488ee65e08fa41e58e888a9865554c535f2c77126a'' @
      ''82cb4c0f917f31441364736f6c63430007060033496e76616c69642073696e676c65746f6e2061646472657373207072'' @
      ''6f7669646564'')"

definition setup_signature :: string where
  "setup_signature = ''setup(address[],uint256,address,bytes,address,address,uint256,address)''"

text \<open>\<open>predictSafeAddress\<close> of key-generator.ts, and the call with its default factory
  and singleton.\<close>

definition predictSafeAddress :: "address \<Rightarrow> address \<Rightarrow> address \<Rightarrow> address" where
  "predictSafeAddress eoaAddress safeProxyFactory' safeSingleton' =
     (let initializerData = abi_encode
            [AAddressArray [eoaAddress], AUint256 1, AAddress 0, ABytes [],
             AAddress 0, AAddress 0, AUint256 0, AAddress 0];
          salt = keccak256 (solidityPack [PBytes32 (keccak256 initializerData), PUint256 0]);
          proxyCreationCode = solidityPack [PBytes proxy_creation_bytecode, PUint256 (ucast safeSingleton')];
          proxyAddress = getCreate2Address safeProxyFactory' salt (keccak256 proxyCreationCode)
      in proxyAddress)"

definition predictSafeAddress_default :: "address \<Rightarrow> address" where
  "predictSafeAddress_default eoaAddress =
     predictSafeAddress eoaAddress 0xaacFeEa03eb1561C4e67d661e40682Bd20E3541b
       0x69f4D1788e39c87893C980c06EdF4b7f686e2938"

text \<open>\<open>calculateSafeAddress\<close> of safe-deployer.ts, and the call with its default factory
  and singleton.\<close>

definition calculateSafeAddress :: "address \<Rightarrow> address \<Rightarrow> address \<Rightarrow> address" where
  "calculateSafeAddress ownerAddress proxyFactory singleton =
     (let setupData = encodeFunctionData setup_signature
            [AAddressArray [ownerAddress], AUint256 1, AAddress 0, ABytes [],
             AAddress 0, AAddress 0, AUint256 0, AAddress 0];
          saltNonce = 0;
          salt = keccak256 (solidityPack [PBytes32 (keccak256 setupData), PUint256 saltNonce]);
          proxyBytecode = proxy_creation_bytecode;
          initCode = solidityPack [PBytes proxyBytecode, PUint256 (ucast singleton)];
          proxyAddress = getCreate2Address proxyFactory salt (keccak256 initCode)
      in proxyAddress)"

definition calculateSafeAddress_default :: "address \<Rightarrow> address" where
  "calculateSafeAddress_default ownerAddress =
     calculateSafeAddress ownerAddress (safeProxyFactory POLYGON_CONTRACTS)
       (safeSingleton POLYGON_CONTRACTS)"

subsection \<open>The derivation as the specification words it\<close>

text \<open>
  The setup call data is the ABI-encoded call of \<open>setup\<close> with the owner as only owner,
  threshold 1 and every other argument zero, empty or the null address; the salt is the
  hash of the hash of the call data followed by \<open>uint256(0)\<close>; the init code is the
  creation code of the proxy followed by the singleton encoded as a \<open>uint256\<close>; the address
  is the CREATE2 address of factory, salt and the hash of the init code.
\<close>

definition spec_setupCalldata :: "address \<Rightarrow> byte list" where
  "spec_setupCalldata owner =
     function_selector setup_signature
       @ abi_encode [AAddressArray [owner], AUint256 1, AAddress 0, ABytes [],
                     AAddress 0, AAddress 0, AUint256 0, AAddress 0]"

definition spec_salt :: "address \<Rightarrow> byte list" where
  "spec_salt owner = keccak256 (keccak256 (spec_setupCalldata owner) @ abi_content (AUint256 0))"

definition spec_initCode :: "address \<Rightarrow> byte list" where
  "spec_initCode singleton = proxy_creation_bytecode @ abi_encode [AUint256 (ucast singleton)]"

definition spec_CREATE2 :: "address \<Rightarrow> byte list \<Rightarrow> byte list \<Rightarrow> address" where
  "spec_CREATE2 factory salt codeHash =
     of_nat (be_value (drop 12 (keccak256 (0xff # be_bytes 20 (unat factory) @ salt @ codeHash))))"

definition spec_SafeAddress :: "address \<Rightarrow> address \<Rightarrow> address \<Rightarrow> address" where
  "spec_SafeAddress owner factory singleton =
     spec_CREATE2 factory (spec_salt owner) (keccak256 (spec_initCode singleton))"

section \<open>Properties of request signing\<close>

lemma truthy_falsy_values:
  "\<not> truthy v \<longleftrightarrow> v = JUndefined \<or> v = JNull \<or> v = JBool False \<or> v = JNumber 0 \<or> v = JString ''''"
  by (cases v) auto

lemma createHmacSignature_falsy:
  "\<not> truthy b \<Longrightarrow>
   createHmacSignature hmac stringify \<lparr>httpMethod = m, path = p, body = b, timestamp = t, secret = s\<rparr>
     = base64_encode (hmac s (Number_toString t @ method_string m @ p))"
  by (simp add: createHmacSignature_def)

text \<open>
  C4.  A signature made by \<open>createHmacSignature\<close> for a method, path, body, time stamp and
  secret is accepted by \<open>verifyHmacSignature\<close> for the same envelope and secret whenever
  the clock \<open>now\<close> is within the validity window: \<open>|now - timestamp| \<le> window * 1000\<close>.
\<close>

theorem verify_accepts_created_signature:
  assumes "\<bar>now - t\<bar> \<le> validityWindowSeconds * 1000"
  shows "verifyHmacSignature hmac stringify now
           (createHmacSignature hmac stringify
              \<lparr>httpMethod = m, path = p, body = b, timestamp = t, secret = s\<rparr>)
           \<lparr>httpMethod = m, path = p, body = b, timestamp = t, secret = x\<rparr> s validityWindowSeconds
         = \<lparr>valid = True, reason = None\<rparr>"
  using assms by (simp add: verifyHmacSignature_def Let_def)

theorem verify_accepts_created_signature_witness:
  "\<bar>1700000020000 - 1700000000000\<bar> \<le> (30 :: int) * 1000 \<and>
   verifyHmacSignature (\<lambda>k msg. []) (\<lambda>v. ''{}'') 1700000020000
     (createHmacSignature (\<lambda>k msg. []) (\<lambda>v. ''{}'')
        \<lparr>httpMethod = POST, path = ''/orders'', body = JObject [], timestamp = 1700000000000,
         secret = ''s3cret''\<rparr>)
     \<lparr>httpMethod = POST, path = ''/orders'', body = JObject [], timestamp = 1700000000000,
      secret = ''other''\<rparr> ''s3cret'' 30
   = \<lparr>valid = True, reason = None\<rparr>"
proof -
  have w: "\<bar>1700000020000 - 1700000000000\<bar> \<le> (30 :: int) * 1000" by simp
  show ?thesis
    using w verify_accepts_created_signature [OF w, of "\<lambda>k msg. []" "\<lambda>v. ''{}''" POST
      "''/orders''" "JObject []" "''s3cret''" "''other''"]
    by blast
qed

text \<open>
  C5.  An envelope with the correct signature is still rejected when the clock is outside
  the window, \<open>|now - timestamp| > window * 1000\<close>: the verdict is invalid and its reason is
  the expiry message.
\<close>

theorem verify_rejects_expired_signature:
  assumes "\<bar>now - t\<bar> > validityWindowSeconds * 1000"
  shows "verifyHmacSignature hmac stringify now
           (createHmacSignature hmac stringify
              \<lparr>httpMethod = m, path = p, body = b, timestamp = t, secret = s\<rparr>)
           \<lparr>httpMethod = m, path = p, body = b, timestamp = t, secret = x\<rparr> s validityWindowSeconds
         = \<lparr>valid = False,
            reason = Some (''Request timestamp expired. Time difference: ''
                           @ Number_toString \<bar>now - t\<bar> @ ''ms, max allowed: ''
                           @ Number_toString (validityWindowSeconds * 1000) @ ''ms'')\<rparr>"
  using assms by (simp add: verifyHmacSignature_def Let_def)

theorem verify_rejects_expired_signature_witness:
  "\<bar>1700000030001 - 1700000000000\<bar> > (30 :: int) * 1000 \<and>
   verifyHmacSignature (\<lambda>k msg. []) (\<lambda>v. ''{}'') 1700000030001
     (createHmacSignature (\<lambda>k msg. []) (\<lambda>v. ''{}'')
        \<lparr>httpMethod = GET, path = ''/me'', body = JUndefined, timestamp = 1700000000000,
         secret = ''s3cret''\<rparr>)
     \<lparr>httpMethod = GET, path = ''/me'', body = JUndefined, timestamp = 1700000000000,
      secret = ''other''\<rparr> ''s3cret'' 30
   = \<lparr>valid = False,
      reason = Some (''Request timestamp expired. Time difference: ''
                     @ Number_toString \<bar>1700000030001 - 1700000000000\<bar> @ ''ms, max allowed: ''
                     @ Number_toString (30 * 1000) @ ''ms'')\<rparr>"
proof -
  have w: "\<bar>1700000030001 - 1700000000000\<bar> > (30 :: int) * 1000" by simp
  show ?thesis
    using w verify_rejects_expired_signature [OF w, of "\<lambda>k msg. []" "\<lambda>v. ''{}''" GET
      "''/me''" JUndefined "''s3cret''" "''other''"]
    by blast
qed

text \<open>
  C10.  An absent body and the falsy bodies \<open>null\<close>, \<open>0\<close>, \<open>false\<close> and \<open>""\<close> are all signed
  as the empty body string: for one method, path, time stamp and secret the five requests
  have one signature.
\<close>

theorem falsy_bodies_share_signature:
  "createHmacSignature hmac stringify \<lparr>httpMethod = m, path = p, body = JUndefined, timestamp = t, secret = s\<rparr>
     = base64_encode (hmac s (Number_toString t @ method_string m @ p @ []))
   \<and> createHmacSignature hmac stringify \<lparr>httpMethod = m, path = p, body = JNull, timestamp = t, secret = s\<rparr>
     = createHmacSignature hmac stringify \<lparr>httpMethod = m, path = p, body = JUndefined, timestamp = t, secret = s\<rparr>
   \<and> createHmacSignature hmac stringify \<lparr>httpMethod = m, path = p, body = JNumber 0, timestamp = t, secret = s\<rparr>
     = createHmacSignature hmac stringify \<lparr>httpMethod = m, path = p, body = JUndefined, timestamp = t, secret = s\<rparr>
   \<and> createHmacSignature hmac stringify \<lparr>httpMethod = m, path = p, body = JBool False, timestamp = t, secret = s\<rparr>
     = createHmacSignature hmac stringify \<lparr>httpMethod = m, path = p, body = JUndefined, timestamp = t, secret = s\<rparr>
   \<and> createHmacSignature hmac stringify \<lparr>httpMethod = m, path = p, body = JString [], timestamp = t, secret = s\<rparr>
     = createHmacSignature hmac stringify \<lparr>httpMethod = m, path = p, body = JUndefined, timestamp = t, secret = s\<rparr>"
  by (simp add: createHmacSignature_falsy)

subsection \<open>API keys\<close>

lemma length_encode64_unpadded:
  "length (encode64 al False bs) = (4 * length bs + 2) div 3"
  by (induction al False bs rule: encode64.induct) simp_all

lemma length_base64url_encode: "length (base64url_encode bs) = (4 * length bs + 2) div 3"
  by (simp add: base64url_encode_def length_encode64_unpadded)

text \<open>
  C9.  For every 24 random bytes, \<open>generateApiKey("qnt")\<close> returns a key that starts with
  \<open>qnt_\<close>, a key prefix that is the first 12 characters of that key and is 12 characters
  long, and a key hash that is the SHA-256 hex digest of the whole key, which is what
  \<open>hashApiKey\<close> computes from the key.
\<close>

theorem generateApiKey_qnt:
  assumes "length randomBytes = 24"
  shows "take 4 (key (generateApiKey sha256_hex randomBytes ''qnt'')) = ''qnt_''
       \<and> keyPrefix (generateApiKey sha256_hex randomBytes ''qnt'')
           = take 12 (key (generateApiKey sha256_hex randomBytes ''qnt''))
       \<and> length (keyPrefix (generateApiKey sha256_hex randomBytes ''qnt'')) = 12
       \<and> keyHash (generateApiKey sha256_hex randomBytes ''qnt'')
           = sha256_hex (key (generateApiKey sha256_hex randomBytes ''qnt''))
       \<and> hashApiKey sha256_hex (key (generateApiKey sha256_hex randomBytes ''qnt''))
           = keyHash (generateApiKey sha256_hex randomBytes ''qnt'')"
  using assms
  by (simp add: generateApiKey_def hashApiKey_def Let_def length_base64url_encode)

theorem generateApiKey_qnt_witness:
  "length (replicate 24 (0 :: byte)) = 24
   \<and> take 4 (key (generateApiKey (\<lambda>s. s) (replicate 24 0) ''qnt'')) = ''qnt_''
   \<and> keyPrefix (generateApiKey (\<lambda>s. s) (replicate 24 0) ''qnt'')
       = take 12 (key (generateApiKey (\<lambda>s. s) (replicate 24 0) ''qnt''))
   \<and> length (keyPrefix (generateApiKey (\<lambda>s. s) (replicate 24 0) ''qnt'')) = 12
   \<and> keyHash (generateApiKey (\<lambda>s. s) (replicate 24 0) ''qnt'')
       = (\<lambda>s. s) (key (generateApiKey (\<lambda>s. s) (replicate 24 0) ''qnt''))
   \<and> hashApiKey (\<lambda>s. s) (key (generateApiKey (\<lambda>s. s) (replicate 24 0) ''qnt''))
       = keyHash (generateApiKey (\<lambda>s. s) (replicate 24 0) ''qnt'')"
proof -
  have w: "length (replicate 24 (0 :: byte)) = 24" by simp
  show ?thesis
    using w generateApiKey_qnt [OF w, of "\<lambda>s. s"] by blast
qed

section \<open>Properties of the relayer client\<close>

lemma relay_returns: "\<exists>r. relay fetch stringify client transaction = Inr r"
  by (simp add: relay_def split: sum.split)

lemma relay_failure_has_error:
  assumes "relay fetch stringify client transaction = Inr r" and "\<not> success r"
  shows "\<exists>m. error r = Some m"
  using assms
  by (auto simp: relay_def relay_try_def relay_catch_def
           split: sum.splits outcome.splits if_splits)

text \<open>
  C6.  \<open>relay\<close> always returns a result and raises nothing.  A response outside 2xx whose
  text is \<open>b\<close> gives \<open>{success: false}\<close> with the error \<open>Relayer error: <status> - <b>\<close>; a
  rejected \<open>fetch\<close> (network failure, timeout) gives \<open>{success: false}\<close> with the message of
  the failure; a 2xx response whose JSON object has a transaction hash under \<open>txHash\<close>, or
  has no \<open>txHash\<close> and one under \<open>transactionHash\<close>, gives \<open>{success: true}\<close> with that hash.
\<close>

theorem relay_never_raises_and_reports:
  "(\<exists>r. relay fetch stringify client transaction = Inr r)
   \<and> (fetch (relay_request stringify client transaction) = Resolved response
        \<and> \<not> ok response \<and> text_body response = Resolved b
      \<longrightarrow> relay fetch stringify client transaction
            = Inr \<lparr>success = False, txHash = None,
                   error = Some (''Relayer error: '' @ (Number_toString (int (status response))
                                  @ '' - '' @ b))\<rparr>)
   \<and> (fetch (relay_request stringify client transaction) = Rejected (Error m)
      \<longrightarrow> relay fetch stringify client transaction
            = Inr \<lparr>success = False, txHash = None, error = Some m\<rparr>)
   \<and> (fetch (relay_request stringify client transaction) = Resolved response
        \<and> ok response \<and> json_body response = Resolved (JObject kvs)
        \<and> map_of kvs ''txHash'' = Some (JString h) \<and> h \<noteq> []
      \<longrightarrow> relay fetch stringify client transaction
            = Inr \<lparr>success = True, txHash = Some (JString h), error = None\<rparr>)
   \<and> (fetch (relay_request stringify client transaction) = Resolved response
        \<and> ok response \<and> json_body response = Resolved (JObject kvs)
        \<and> map_of kvs ''txHash'' = None
        \<and> map_of kvs ''transactionHash'' = Some (JString h) \<and> h \<noteq> []
      \<longrightarrow> relay fetch stringify client transaction
            = Inr \<lparr>success = True, txHash = Some (JString h), error = None\<rparr>)"
  by (simp add: relay_returns) (simp add: relay_def relay_try_def relay_catch_def)

theorem relay_never_raises_and_reports_witness:
  "relay (\<lambda>q. Resolved \<lparr>status = 500, text_body = Resolved ''boom'',
                          json_body = Rejected (Error ''Unexpected token'')\<rparr>)
     (\<lambda>v. ''{}'') \<lparr>client_endpoint = ''https://relayer.example'', client_timeout = 30000\<rparr>
     \<lparr>fromAddress = ''0x01'', to = ''0x02'', proxyWallet = ''0x03'', data = ''0x'', signature = ''0x04''\<rparr>
     = Inr \<lparr>success = False, txHash = None, error = Some ''Relayer error: 500 - boom''\<rparr>
   \<and> relay (\<lambda>q. Rejected (Error ''fetch failed''))
     (\<lambda>v. ''{}'') \<lparr>client_endpoint = ''https://relayer.example'', client_timeout = 30000\<rparr>
     \<lparr>fromAddress = ''0x01'', to = ''0x02'', proxyWallet = ''0x03'', data = ''0x'', signature = ''0x04''\<rparr>
     = Inr \<lparr>success = False, txHash = None, error = Some ''fetch failed''\<rparr>
   \<and> relay (\<lambda>q. Resolved \<lparr>status = 200, text_body = Resolved ''{}'',
                            json_body = Resolved (JObject [(''txHash'', JString ''0xabc'')])\<rparr>)
     (\<lambda>v. ''{}'') \<lparr>client_endpoint = ''https://relayer.example'', client_timeout = 30000\<rparr>
     \<lparr>fromAddress = ''0x01'', to = ''0x02'', proxyWallet = ''0x03'', data = ''0x'', signature = ''0x04''\<rparr>
     = Inr \<lparr>success = True, txHash = Some (JString ''0xabc''), error = None\<rparr>
   \<and> relay (\<lambda>q. Resolved \<lparr>status = 201, text_body = Resolved ''{}'',
                            json_body = Resolved (JObject [(''transactionHash'', JString ''0xdef'')])\<rparr>)
     (\<lambda>v. ''{}'') \<lparr>client_endpoint = ''https://relayer.example'', client_timeout = 30000\<rparr>
     \<lparr>fromAddress = ''0x01'', to = ''0x02'', proxyWallet = ''0x03'', data = ''0x'', signature = ''0x04''\<rparr>
     = Inr \<lparr>success = True, txHash = Some (JString ''0xdef''), error = None\<rparr>"
proof -
  have d: "Number_toString 500 = ''500''"
    by code_simp
  show ?thesis
    using
      relay_never_raises_and_reports
        [where fetch = "\<lambda>q. Resolved \<lparr>status = 500, text_body = Resolved ''boom'',
                                        json_body = Rejected (Error ''Unexpected token'')\<rparr>"
           and response = "\<lparr>status = 500, text_body = Resolved ''boom'',
                             json_body = Rejected (Error ''Unexpected token'')\<rparr>"
           and b = "''boom''"]
      relay_never_raises_and_reports
        [where fetch = "\<lambda>q. Rejected (Error ''fetch failed'')" and m = "''fetch failed''"]
      relay_never_raises_and_reports
        [where fetch = "\<lambda>q. Resolved \<lparr>status = 200, text_body = Resolved ''{}'',
                                        json_body = Resolved (JObject [(''txHash'', JString ''0xabc'')])\<rparr>"
           and response = "\<lparr>status = 200, text_body = Resolved ''{}'',
                             json_body = Resolved (JObject [(''txHash'', JString ''0xabc'')])\<rparr>"
           and kvs = "[(''txHash'', JString ''0xabc'')]" and h = "''0xabc''"]
      relay_never_raises_and_reports
        [where fetch = "\<lambda>q. Resolved \<lparr>status = 201, text_body = Resolved ''{}'',
                                        json_body = Resolved (JObject [(''transactionHash'', JString ''0xdef'')])\<rparr>"
           and response = "\<lparr>status = 201, text_body = Resolved ''{}'',
                             json_body = Resolved (JObject [(''transactionHash'', JString ''0xdef'')])\<rparr>"
           and kvs = "[(''transactionHash'', JString ''0xdef'')]" and h = "''0xdef''"]
    by (simp add: ok_def d)
qed

text \<open>
  C7, as stated, fails: a 2xx response whose JSON object has neither \<open>txHash\<close> nor
  \<open>transactionHash\<close> gives \<open>{success: true}\<close> with \<open>txHash\<close> undefined.
\<close>

theorem relay_success_without_hash:
  "relay (\<lambda>q. Resolved \<lparr>status = 200, text_body = Resolved ''{}'', json_body = Resolved (JObject [])\<rparr>)
     (\<lambda>v. ''{}'') \<lparr>client_endpoint = ''https://relayer.example'', client_timeout = 30000\<rparr>
     \<lparr>fromAddress = ''0x01'', to = ''0x02'', proxyWallet = ''0x03'', data = ''0x'', signature = ''0x04''\<rparr>
   = Inr \<lparr>success = True, txHash = Some JUndefined, error = None\<rparr>"
  by (simp add: relay_def relay_try_def ok_def)

text \<open>
  C7, amended.  Every result of \<open>relay\<close> is a failure or a success and never both: a
  failure has an error string and no \<open>txHash\<close>; a success has no error, comes from a 2xx
  response with a JSON body, and its \<open>txHash\<close> is \<open>body.txHash || body.transactionHash\<close>,
  which is defined exactly when \<open>body.txHash\<close> is truthy or \<open>body.transactionHash\<close> is
  defined.
\<close>

theorem relay_terminal_outcome:
  assumes "relay fetch stringify client transaction = Inr r"
  shows "(\<not> success r \<longrightarrow> txHash r = None \<and> (\<exists>m. error r = Some m))
       \<and> (success r \<longrightarrow> error r = None
            \<and> (\<exists>response result a b.
                  fetch (relay_request stringify client transaction) = Resolved response
                  \<and> ok response \<and> json_body response = Resolved result
                  \<and> get_property result ''txHash'' = Inr a
                  \<and> get_property result ''transactionHash'' = Inr b
                  \<and> txHash r = Some (js_or a b)
                  \<and> ((\<exists>h. txHash r = Some h \<and> h \<noteq> JUndefined) \<longleftrightarrow> truthy a \<or> b \<noteq> JUndefined)))"
proof (cases "fetch (relay_request stringify client transaction)")
  case (Rejected e)
  with assms show ?thesis
    by (auto simp: relay_def relay_try_def relay_catch_def)
next
  case (Resolved response)
  show ?thesis
  proof (cases "ok response")
    case False
    with assms Resolved show ?thesis
      by (auto simp: relay_def relay_try_def relay_catch_def split: outcome.splits)
  next
    case True
    show ?thesis
    proof (cases "json_body response")
      case (Rejected e)
      with assms True \<open>fetch _ = Resolved response\<close> show ?thesis
        by (auto simp: relay_def relay_try_def relay_catch_def)
    next
      case body: (Resolved result)
      show ?thesis
      proof (cases "get_property result ''txHash''")
        case (Inl e)
        with assms True body \<open>fetch _ = Resolved response\<close> show ?thesis
          by (auto simp: relay_def relay_try_def relay_catch_def)
      next
        case (Inr a)
        then obtain b where b: "get_property result ''transactionHash'' = Inr b"
          by (cases result) auto
        from assms True body Inr b \<open>fetch _ = Resolved response\<close>
        have r: "r = \<lparr>success = True, txHash = Some (js_or a b), error = None\<rparr>"
          by (auto simp: relay_def relay_try_def js_or_def)
        have "js_or a b \<noteq> JUndefined \<longleftrightarrow> truthy a \<or> b \<noteq> JUndefined"
          by (cases a) (auto simp: js_or_def)
        with r True body Inr b \<open>fetch _ = Resolved response\<close> show ?thesis
          by auto
      qed
    qed
  qed
qed

theorem relay_terminal_outcome_witness:
  "error \<lparr>success = True, txHash = Some JUndefined, error = (None :: string option)\<rparr> = None
   \<and> (\<exists>response result a b.
         (\<lambda>q. Resolved \<lparr>status = 200, text_body = Resolved ''{}'', json_body = Resolved (JObject [])\<rparr>)
           (relay_request (\<lambda>v. ''{}'')
              \<lparr>client_endpoint = ''https://relayer.example'', client_timeout = 30000\<rparr>
              \<lparr>fromAddress = ''0x01'', to = ''0x02'', proxyWallet = ''0x03'', data = ''0x'',
               signature = ''0x04''\<rparr>) = Resolved response
         \<and> ok response \<and> json_body response = Resolved result
         \<and> get_property result ''txHash'' = Inr a
         \<and> get_property result ''transactionHash'' = Inr b
         \<and> txHash \<lparr>success = True, txHash = Some JUndefined, error = (None :: string option)\<rparr>
             = Some (js_or a b))"
proof -
  have run: "relay (\<lambda>q. Resolved \<lparr>status = 200, text_body = Resolved ''{}'',
                                   json_body = Resolved (JObject [])\<rparr>)
     (\<lambda>v. ''{}'') \<lparr>client_endpoint = ''https://relayer.example'', client_timeout = 30000\<rparr>
     \<lparr>fromAddress = ''0x01'', to = ''0x02'', proxyWallet = ''0x03'', data = ''0x'', signature = ''0x04''\<rparr>
   = Inr \<lparr>success = True, txHash = Some JUndefined, error = None\<rparr>"
    by (simp add: relay_def relay_try_def ok_def)
  show ?thesis
    using relay_terminal_outcome [OF run] by simp
qed

section \<open>Properties of the key vault\<close>

subsection \<open>Construction\<close>

lemma length_hex_decode:
  "list_all (\<lambda>c. hex_value c \<noteq> None) s \<Longrightarrow> length (hex_decode s) = length s div 2"
  by (induction s rule: hex_decode.induct) auto

lemma length_hex_decode_64:
  "is_hex s \<Longrightarrow> length s = 64 \<Longrightarrow> length (hex_decode s) = 32"
  by (simp add: is_hex_def length_hex_decode)

text \<open>
  C8.  Given a string as master key, the constructor returns a vault exactly when the
  string is 64 hexadecimal digits (which decode to 32 bytes) or decodes as base64 to 32
  bytes, and throws an error otherwise; the key of a constructed vault is 32 bytes long
  and is that decoding.
\<close>

theorem KeyVault_constructor_string:
  "((\<exists>v. KeyVault_constructor (Some (KeyString s)) = Inr v)
      \<longleftrightarrow> (is_hex s \<and> length s = 64 \<and> length (hex_decode s) = 32)
          \<or> length (base64_decode s) = 32)
   \<and> ((\<exists>m. KeyVault_constructor (Some (KeyString s)) = Inl (Error m))
      \<longleftrightarrow> \<not> ((is_hex s \<and> length s = 64 \<and> length (hex_decode s) = 32)
             \<or> length (base64_decode s) = 32))
   \<and> (KeyVault_constructor (Some (KeyString s)) = Inr v
      \<longrightarrow> length (masterKey v) = 32
          \<and> masterKey v = (if is_hex s \<and> length s = 64 then hex_decode s else base64_decode s))"
  by (auto simp: KeyVault_constructor_def parseKey_def validate_key_length_def Let_def
                 length_hex_decode_64)

theorem KeyVault_constructor_string_witness:
  "KeyVault_constructor (Some (KeyString ''000102030405060708090a0b0c0d0e0f101112131415161718191A1B1C1D1E1F''))
     = Inr \<lparr>masterKey = [0, 1, 2, 3, 4, 5, 6, 7, 8, 9, 10, 11, 12, 13, 14, 15, 16, 17, 18, 19, 20,
                           21, 22, 23, 24, 25, 26, 27, 28, 29, 30, 31]\<rparr>
   \<and> length (masterKey \<lparr>masterKey = [0, 1, 2, 3, 4, 5, 6, 7, 8, 9, 10, 11, 12, 13, 14, 15, 16, 17,
                           18, 19, 20, 21, 22, 23, 24, 25, 26, 27, 28, 29, 30, 31 :: byte]\<rparr>) = 32
   \<and> (\<exists>m. KeyVault_constructor (Some (KeyString ''secret'')) = Inl (Error m))"
proof -
  have a: "KeyVault_constructor (Some (KeyString ''000102030405060708090a0b0c0d0e0f101112131415161718191A1B1C1D1E1F''))
     = Inr \<lparr>masterKey = [0, 1, 2, 3, 4, 5, 6, 7, 8, 9, 10, 11, 12, 13, 14, 15, 16, 17, 18, 19, 20,
                           21, 22, 23, 24, 25, 26, 27, 28, 29, 30, 31]\<rparr>"
    by (simp add: KeyVault_constructor_def parseKey_def validate_key_length_def is_hex_def
                  hex_value_def)
  have b: "\<not> ((is_hex ''secret'' \<and> length ''secret'' = 64 \<and> length (hex_decode ''secret'') = 32)
             \<or> length (base64_decode ''secret'') = 32)"
    by (simp add: base64_decode_def sextets_def unbase64_def List.map_filter_simps)
  show ?thesis
    using a b
      KeyVault_constructor_string [of "''000102030405060708090a0b0c0d0e0f101112131415161718191A1B1C1D1E1F''"]
      KeyVault_constructor_string [of "''secret''"]
    by simp
qed

subsection \<open>Base64 text decodes to the bytes it encodes\<close>

lemma unbase64_table: "map unbase64 base64_alphabet = map Some [0..<64]"
  by (simp add: base64_alphabet_def unbase64_def upt_rec)

lemma unbase64_alphabet: "i < 64 \<Longrightarrow> unbase64 (base64_alphabet ! i) = Some i"
proof -
  assume i: "i < 64"
  have len: "length base64_alphabet = 64" by (simp add: base64_alphabet_def)
  have "map unbase64 base64_alphabet ! i = map Some [0..<64] ! i"
    by (simp only: unbase64_table)
  with i len show ?thesis by simp
qed

lemma unbase64_pad: "unbase64 CHR ''='' = None"
  by (simp add: unbase64_def)

lemma alphabet_not_pad: "i < 64 \<Longrightarrow> base64_alphabet ! i \<noteq> CHR ''=''"
  using unbase64_alphabet [of i] unbase64_pad by auto

lemma sextets_alphabet:
  "i < 64 \<Longrightarrow> sextets (base64_alphabet ! i # s) = i # sextets s"
  by (simp add: sextets_def alphabet_not_pad unbase64_alphabet List.map_filter_simps)

lemma sextets_pad: "sextets (CHR ''='' # s) = []"
  by (simp add: sextets_def List.map_filter_simps)

lemma sextets_Nil: "sextets [] = []"
  by (simp add: sextets_def List.map_filter_simps)

lemma byte_bound: "unat (a :: byte) < 256"
  using unsigned_less [of a, where 'a = nat] by simp

lemma div16: "y < 256 \<Longrightarrow> y div 16 < (16::nat)"
  by (simp add: less_mult_imp_div_less)

lemma div64: "z < 256 \<Longrightarrow> z div 64 < (4::nat)"
  by (simp add: less_mult_imp_div_less)

lemma div4: "x < 256 \<Longrightarrow> x div 4 < (64::nat)"
  by (simp add: less_mult_imp_div_less)

lemma regroup1: "y < 256 \<Longrightarrow> x div 4 * 4 + (x mod 4 * 16 + y div 16) div 16 = (x :: nat)"
  using div16 [of y] by simp

lemma regroup2:
  "y < 256 \<Longrightarrow> z < 256 \<Longrightarrow>
   (x mod 4 * 16 + y div 16) mod 16 * 16 + (y mod 16 * 4 + z div 64) div 4 = (y :: nat)"
  using div16 [of y] div64 [of z] by simp

lemma regroup3: "z < 256 \<Longrightarrow> (y mod 16 * 4 + z div 64) mod 4 * 64 + z mod 64 = (z :: nat)"
  using div64 [of z] by simp

lemma sextet_bounds:
  "x < 256 \<Longrightarrow> y < 256 \<Longrightarrow> x mod 4 * 16 + y div 16 < (64::nat)"
  "y < 256 \<Longrightarrow> z < 256 \<Longrightarrow> y mod 16 * 4 + z div 64 < (64::nat)"
proof -
  assume "x < 256" "y < 256"
  have "x mod 4 < 4" by simp
  then have "x mod 4 * 16 \<le> 48" by linarith
  with div16 [OF \<open>y < 256\<close>] show "x mod 4 * 16 + y div 16 < 64" by linarith
next
  assume "y < 256" "z < 256"
  have "y mod 16 < 16" by simp
  then have "y mod 16 * 4 \<le> 60" by linarith
  with div64 [OF \<open>z < 256\<close>] show "y mod 16 * 4 + z div 64 < 64" by linarith
qed


lemma base64_sextets_roundtrip:
  "sextets_to_bytes (sextets (encode64 base64_alphabet True bs)) = bs"
proof (induction base64_alphabet True bs rule: encode64.induct)
  case (1 a b c rest)
  note bb = byte_bound [of a] byte_bound [of b] byte_bound [of c]
  have lt: "unat a div 4 < 64" "unat a mod 4 * 16 + unat b div 16 < 64"
           "unat b mod 16 * 4 + unat c div 64 < 64" "unat c mod 64 < 64"
    using bb by (simp_all add: div4 sextet_bounds)
  have "sextets (encode64 base64_alphabet True (a # b # c # rest))
        = unat a div 4 # (unat a mod 4 * 16 + unat b div 16)
          # (unat b mod 16 * 4 + unat c div 64) # unat c mod 64
          # sextets (encode64 base64_alphabet True rest)"
    using lt by (simp add: sextets_alphabet)
  then show ?case
    using 1 bb by (simp add: regroup1 regroup2 regroup3)
next
  case (2 a b)
  note bb = byte_bound [of a] byte_bound [of b]
  have lt: "unat a div 4 < 64" "unat a mod 4 * 16 + unat b div 16 < 64"
           "unat b mod 16 * 4 < 64"
    using bb sextet_bounds(2) [of "unat b" 0] by (simp_all add: div4 sextet_bounds)
  have "sextets (encode64 base64_alphabet True [a, b])
        = [unat a div 4, unat a mod 4 * 16 + unat b div 16, unat b mod 16 * 4]"
    using lt by (simp add: sextets_alphabet sextets_pad)
  then show ?case
    using bb regroup2 [of "unat b" 0 "unat a"] by (simp add: regroup1)
next
  case (3 a)
  note bb = byte_bound [of a]
  have lt: "unat a div 4 < 64" "unat a mod 4 * 16 < 64"
    using bb sextet_bounds(1) [of "unat a" 0] by (simp_all add: div4)
  have "sextets (encode64 base64_alphabet True [a]) = [unat a div 4, unat a mod 4 * 16]"
    using lt by (simp add: sextets_alphabet sextets_pad)
  then show ?case
    using regroup1 [of 0 "unat a"] by simp
next
  case 4
  show ?case by (simp add: sextets_Nil)
qed

lemma base64_roundtrip: "base64_decode (base64_encode bs) = bs"
  using base64_sextets_roundtrip [of bs]
  by (simp add: base64_decode_def base64_encode_def)

subsection \<open>Counter mode and GCM\<close>

lemma length_be_bytes: "length (be_bytes n v) = n"
  by (simp add: be_bytes_def)

lemma length_bytes_of_block: "length (bytes_of_block w) = 16"
  by (simp add: bytes_of_block_def length_be_bytes)

lemma map2_xor_cancel:
  "length a \<le> length k \<Longrightarrow> map2 (XOR) (map2 (XOR) a k) k = (a :: byte list)"
proof (induction a arbitrary: k)
  case Nil
  show ?case by simp
next
  case (Cons x a)
  then obtain y k' where k: "k = y # k'" by (cases k) auto
  with Cons show ?case by (simp add: xor.assoc)
qed

lemma gctr_Nil: "gctr E cb [] = []"
  by (simp add: gctr_def)

lemma gctr_step:
  "xs \<noteq> [] \<Longrightarrow>
   gctr E cb xs = map2 (XOR) (take 16 xs) (bytes_of_block (E cb)) @ gctr E (inc32 cb) (drop 16 xs)"
  by (cases xs) (simp_all add: gctr_def)

lemma length_gctr: "length (gctr E cb xs) = length xs"
proof (induction xs arbitrary: cb rule: length_induct)
  case (1 xs)
  show ?case
  proof (cases "xs = []")
    case True
    then show ?thesis by (simp add: gctr_Nil)
  next
    case False
    then have "length (drop 16 xs) < length xs" by simp
    with 1 have "length (gctr E (inc32 cb) (drop 16 xs)) = length (drop 16 xs)" by blast
    with False show ?thesis
      by (simp add: gctr_step length_bytes_of_block)
  qed
qed

lemma gctr_involution: "gctr E cb (gctr E cb xs) = xs"
proof (induction xs arbitrary: cb rule: length_induct)
  case (1 xs)
  show ?case
  proof (cases "xs = []")
    case True
    then show ?thesis by (simp add: gctr_Nil)
  next
    case False
    define h where "h = map2 (XOR) (take 16 xs) (bytes_of_block (E cb))"
    define t where "t = gctr E (inc32 cb) (drop 16 xs)"
    have y: "gctr E cb xs = h @ t"
      using False by (simp add: gctr_step h_def t_def)
    have lh: "length h = min (length xs) 16"
      by (simp add: h_def length_bytes_of_block)
    have lt: "length t = length xs - 16"
      by (simp add: t_def length_gctr)
    have ne: "h @ t \<noteq> []"
      using False lh by (cases xs) auto
    have tk: "take 16 (h @ t) = h" and dr: "drop 16 (h @ t) = t"
    proof -
      show "take 16 (h @ t) = h"
      proof (cases "16 \<le> length xs")
        case True
        with lh show ?thesis by simp
      next
        case False
        with lt have "t = []" by simp
        with lh show ?thesis by simp
      qed
      show "drop 16 (h @ t) = t"
      proof (cases "16 \<le> length xs")
        case True
        with lh show ?thesis by simp
      next
        case False
        with lt have "t = []" by simp
        with lh show ?thesis by simp
      qed
    qed
    have "length (drop 16 xs) < length xs" using False by simp
    with 1 have ih: "gctr E (inc32 cb) t = drop 16 xs"
      unfolding t_def by blast
    have hx: "map2 (XOR) h (bytes_of_block (E cb)) = take 16 xs"
      unfolding h_def by (rule map2_xor_cancel) (simp add: length_bytes_of_block)
    have "gctr E cb (h @ t)
          = map2 (XOR) (take 16 (h @ t)) (bytes_of_block (E cb))
            @ gctr E (inc32 cb) (drop 16 (h @ t))"
      by (rule gctr_step [OF ne])
    also have "\<dots> = map2 (XOR) h (bytes_of_block (E cb)) @ gctr E (inc32 cb) t"
      by (simp only: tk dr)
    also have "\<dots> = take 16 xs @ drop 16 xs"
      by (simp only: hx ih)
    finally show ?thesis
      by (simp add: y)
  qed
qed

lemma length_gcm_tag: "length (gcm_tag E H J0 aad ct) = 16"
  by (simp add: gcm_tag_def length_gctr length_bytes_of_block)

lemma gcm_roundtrip:
  "gcm_encrypt E nonce plain = (ct, tag) \<Longrightarrow> gcm_decrypt E nonce ct tag = Some plain"
  by (auto simp: gcm_encrypt_def gcm_decrypt_def Let_def gctr_involution)

lemma length_gcm_encrypt_tag:
  "gcm_encrypt E nonce plain = (ct, tag) \<Longrightarrow> length tag = 16"
  by (auto simp: gcm_encrypt_def Let_def length_gcm_tag)

text \<open>The hash GHASH on test case 2 of the GCM specification (one block of ciphertext and
  the block of the lengths).\<close>

lemma gf_step_eval:
  "gf_step X (Z, V) i = (if bit X (127 - i) then Z XOR V else Z,
          if bit V 0 then drop_bit 1 V XOR push_bit 120 0xE1 else drop_bit 1 V)"
  by (simp add: gf_step_def)

lemma gf_mult_vector_1:
  "gf_mult 0x0388dace60b6a392f328c2b971b2fe78 0x66e94bd4ef8a2c3b884cfa59ca342b2e
   = 0x5e2ec746917062882c85b0685353deb7"
  by (simp add: gf_mult_def gf_step_eval upt_rec)

lemma gf_mult_vector_2:
  "gf_mult 0x5e2ec746917062882c85b0685353de37 0x66e94bd4ef8a2c3b884cfa59ca342b2e
   = 0xf38cbb1ad69223dcc3457ae5b6b0f885"
  by (simp add: gf_mult_def gf_step_eval upt_rec)

lemma ghash_vector:
  "ghash 0x66e94bd4ef8a2c3b884cfa59ca342b2e
     (bytes_of_block 0x0388dace60b6a392f328c2b971b2fe78 @ bytes_of_block 0x80)
   = 0xf38cbb1ad69223dcc3457ae5b6b0f885"
proof -
  have "map block_of_bytes
          (chunks 16 (bytes_of_block 0x0388dace60b6a392f328c2b971b2fe78 @ bytes_of_block 0x80))
        = [0x0388dace60b6a392f328c2b971b2fe78, 0x80]"
    by (simp add: bytes_of_block_def be_bytes_def block_of_bytes_def be_value_def upt_rec)
  then show ?thesis
    by (simp add: ghash_def gf_mult_vector_1 gf_mult_vector_2)
qed

subsection \<open>UTF-8\<close>

lemma unat_byte_of_nat: "k < 256 \<Longrightarrow> unat (of_nat k :: byte) = k"
  by (simp add: unat_of_nat)

lemma unit_bound: "unat (u :: 16 word) < 65536"
  using unsigned_less [of u, where 'a = nat] by simp

lemma decode_one:
  assumes "unat b1 = c" "c < 128"
  shows "utf8_decoder None (b1 # rest) = of_nat c # utf8_decoder None rest"
  using assms by simp

lemma decode_two:
  assumes "unat b1 = 0xC0 + a" "unat b2 = 0x80 + d" "2 \<le> a" "a < 32" "d < 64"
  shows "utf8_decoder None (b1 # b2 # rest)
         = utf16_units (a * 64 + d) @ utf8_decoder None rest"
proof -
  have "utf8_decoder None (b1 # b2 # rest) = utf8_decoder (Some (1, a, 0x80, 0xBF)) (b2 # rest)"
    using assms by simp
  also have "\<dots> = utf16_units (a * 64 + d) @ utf8_decoder None rest"
    using assms by simp
  finally show ?thesis .
qed

lemma decode_three:
  assumes "unat b1 = 0xE0 + a" "unat b2 = 0x80 + b" "unat b3 = 0x80 + d"
    and "a < 16" "b < 64" "d < 64" "a = 0 \<longrightarrow> 32 \<le> b" "a = 13 \<longrightarrow> b < 32"
  shows "utf8_decoder None (b1 # b2 # b3 # rest)
         = utf16_units ((a * 64 + b) * 64 + d) @ utf8_decoder None rest"
proof -
  consider (low) "a = 0" "32 \<le> b" | (d) "a = 13" "b < 32" | (other) "a \<noteq> 0" "a \<noteq> 13"
    using assms by blast
  then show ?thesis
  proof cases
    case low
    with assms show ?thesis by simp
  next
    case d
    with assms show ?thesis by simp
  next
    case other
    with assms show ?thesis by simp
  qed
qed

lemma decode_four:
  assumes "unat b1 = 0xF0 + q" "unat b2 = 0x80 + a" "unat b3 = 0x80 + b" "unat b4 = 0x80 + d"
    and "q < 5" "a < 64" "b < 64" "d < 64" "q = 0 \<longrightarrow> 16 \<le> a" "q = 4 \<longrightarrow> a < 16"
  shows "utf8_decoder None (b1 # b2 # b3 # b4 # rest)
         = utf16_units (((q * 64 + a) * 64 + b) * 64 + d) @ utf8_decoder None rest"
proof -
  consider (low) "q = 0" "16 \<le> a" | (top) "q = 4" "a < 16" | (other) "q \<noteq> 0" "q \<noteq> 4"
    using assms by blast
  then show ?thesis
  proof cases
    case low
    with assms show ?thesis by simp
  next
    case top
    with assms show ?thesis by simp
  next
    case other
    with assms show ?thesis by simp
  qed
qed
lemma split64: "c div 64 * 64 + c mod 64 = (c :: nat)"
  by simp

lemma div4096: "(c :: nat) div 4096 = c div 64 div 64"
proof -
  have "c div 4096 = c div (64 * 64)" by simp
  also have "\<dots> = c div 64 div 64" by (rule div_mult2_eq)
  finally show ?thesis .
qed

lemma div262144: "(c :: nat) div 262144 = c div 64 div 64 div 64"
proof -
  have "c div 262144 = c div (4096 * 64)" by simp
  also have "\<dots> = c div 4096 div 64" by (rule div_mult2_eq)
  finally show ?thesis by (simp add: div4096)
qed

lemma utf8_scalar_1:
  assumes "c < 0x80"
  shows "utf8_decoder None (utf8_bytes c @ rest) = utf16_units c @ utf8_decoder None rest"
proof -
  have "utf8_decoder None (of_nat c # rest) = of_nat c # utf8_decoder None rest"
    by (rule decode_one [where c = c]) (use assms in \<open>simp_all add: unat_byte_of_nat\<close>)
  with assms show ?thesis
    by (simp add: utf8_bytes_def utf16_units_def)
qed

lemma utf8_scalar_2:
  assumes "0x80 \<le> c" "c < 0x800"
  shows "utf8_decoder None (utf8_bytes c @ rest) = utf16_units c @ utf8_decoder None rest"
proof -
  define a d where "a = c div 64" and "d = c mod 64"
  have c: "c = a * 64 + d" and d: "d < 64"
    by (simp_all add: a_def d_def)
  have a: "2 \<le> a" "a < 32"
    using assms c d by linarith+
  have "utf8_decoder None (of_nat (0xC0 + a) # of_nat (0x80 + d) # rest)
        = utf16_units (a * 64 + d) @ utf8_decoder None rest"
    by (rule decode_two) (use a d in \<open>simp_all add: unat_byte_of_nat del: of_nat_add\<close>)
  moreover have "utf8_bytes c = [of_nat (0xC0 + a), of_nat (0x80 + d)]"
    using assms by (simp add: utf8_bytes_def a_def d_def del: of_nat_add)
  ultimately show ?thesis
    using c by simp
qed

lemma utf8_scalar_3:
  assumes "0x800 \<le> c" "c < 0x10000" "\<not> (0xD800 \<le> c \<and> c \<le> 0xDFFF)"
  shows "utf8_decoder None (utf8_bytes c @ rest) = utf16_units c @ utf8_decoder None rest"
proof -
  define x a b d where "x = c div 64" and "a = x div 64" and "b = x mod 64" and "d = c mod 64"
  have c: "c = x * 64 + d" and d: "d < 64" and x: "x = a * 64 + b" and b: "b < 64"
    by (simp_all add: x_def a_def b_def d_def)
  have a: "a < 16" "a = 0 \<longrightarrow> 32 \<le> b" "a = 13 \<longrightarrow> b < 32"
    using assms c d x b by linarith+
  have "utf8_decoder None (of_nat (0xE0 + a) # of_nat (0x80 + b) # of_nat (0x80 + d) # rest)
        = utf16_units ((a * 64 + b) * 64 + d) @ utf8_decoder None rest"
    by (rule decode_three) (use a b d in \<open>simp_all add: unat_byte_of_nat del: of_nat_add\<close>)
  moreover have "utf8_bytes c = [of_nat (0xE0 + a), of_nat (0x80 + b), of_nat (0x80 + d)]"
    using assms by (simp add: utf8_bytes_def div4096 x_def a_def b_def d_def del: of_nat_add)
  ultimately show ?thesis
    using c x by simp
qed

lemma utf8_scalar_4:
  assumes "0x10000 \<le> c" "c < 0x110000"
  shows "utf8_decoder None (utf8_bytes c @ rest) = utf16_units c @ utf8_decoder None rest"
proof -
  define x y q a b d where "x = c div 64" and "y = x div 64" and "q = y div 64"
    and "a = y mod 64" and "b = x mod 64" and "d = c mod 64"
  have c: "c = x * 64 + d" and d: "d < 64" and x: "x = y * 64 + b" and b: "b < 64"
    and y: "y = q * 64 + a" and a: "a < 64"
    by (simp_all add: x_def y_def q_def a_def b_def d_def)
  have q: "q < 5" "q = 0 \<longrightarrow> 16 \<le> a" "q = 4 \<longrightarrow> a < 16"
    using assms c d x b y a by linarith+
  have "utf8_decoder None (of_nat (0xF0 + q) # of_nat (0x80 + a) # of_nat (0x80 + b)
                            # of_nat (0x80 + d) # rest)
        = utf16_units (((q * 64 + a) * 64 + b) * 64 + d) @ utf8_decoder None rest"
    by (rule decode_four) (use q a b d in \<open>simp_all add: unat_byte_of_nat del: of_nat_add\<close>)
  moreover have "utf8_bytes c = [of_nat (0xF0 + q), of_nat (0x80 + a), of_nat (0x80 + b),
                                 of_nat (0x80 + d)]"
    using assms
    by (simp add: utf8_bytes_def div4096 div262144 x_def y_def q_def a_def b_def d_def
             del: of_nat_add)
  ultimately show ?thesis
    using c x y by simp
qed

lemma utf8_scalar:
  assumes "c < 0x110000" "\<not> (0xD800 \<le> c \<and> c \<le> 0xDFFF)"
  shows "utf8_decoder None (utf8_bytes c @ rest) = utf16_units c @ utf8_decoder None rest"
proof -
  consider "c < 0x80" | "0x80 \<le> c" "c < 0x800" | "0x800 \<le> c" "c < 0x10000"
    | "0x10000 \<le> c"
    by linarith
  then show ?thesis
    using assms
    by cases (simp_all add: utf8_scalar_1 utf8_scalar_2 utf8_scalar_3 utf8_scalar_4)
qed
lemma units_bmp: "utf16_units (unat (u :: 16 word)) = [u]"
  using unit_bound [of u] by (simp add: utf16_units_def)

lemma pair_bounds:
  assumes "is_high_surrogate u" "is_low_surrogate l"
  shows "0x10000 \<le> pair_code_point u l" "pair_code_point u l < 0x110000"
  using assms unfolding is_high_surrogate_def is_low_surrogate_def pair_code_point_def
  by linarith+

lemma units_pair:
  assumes "is_high_surrogate u" "is_low_surrogate l"
  shows "utf16_units (pair_code_point u l) = [u, l]"
proof -
  define h k where "h = unat u - 0xD800" and "k = unat l - 0xDC00"
  have h: "unat u = 0xD800 + h" and k: "unat l = 0xDC00 + k" and kb: "k < 1024"
    using assms unfolding is_high_surrogate_def is_low_surrogate_def h_def k_def
    by linarith+
  have p: "pair_code_point u l = 0x10000 + (h * 1024 + k)"
    by (simp add: pair_code_point_def h_def k_def)
  have "(h * 1024 + k) div 1024 = h" "(h * 1024 + k) mod 1024 = k"
    using kb by simp_all
  then have "utf16_units (pair_code_point u l) = [of_nat (unat u), of_nat (unat l)]"
    by (simp add: p utf16_units_def h k del: of_nat_add)
  then show ?thesis by simp
qed

lemma not_surrogate_scalar:
  assumes "\<not> is_high_surrogate u" "\<not> is_low_surrogate u"
  shows "unat u < 0x110000" "\<not> (0xD800 \<le> unat u \<and> unat u \<le> 0xDFFF)"
  using assms unit_bound [of u]
  by (auto simp: is_high_surrogate_def is_low_surrogate_def)

lemma decode_unit:
  assumes "\<not> is_high_surrogate u" "\<not> is_low_surrogate u"
  shows "utf8_decoder None (utf8_bytes (unat u) @ rest) = u # utf8_decoder None rest"
  using utf8_scalar [OF not_surrogate_scalar [OF assms], of rest] by (simp add: units_bmp)

lemma decode_pair:
  assumes "is_high_surrogate u" "is_low_surrogate l"
  shows "utf8_decoder None (utf8_bytes (pair_code_point u l) @ rest)
         = u # l # utf8_decoder None rest"
proof -
  have "\<not> (0xD800 \<le> pair_code_point u l \<and> pair_code_point u l \<le> 0xDFFF)"
    using pair_bounds(1) [OF assms] by simp
  from utf8_scalar [OF pair_bounds(2) [OF assms] this, of rest] show ?thesis
    by (simp add: units_pair [OF assms])
qed

lemma high_not_low: "is_high_surrogate u \<Longrightarrow> \<not> is_low_surrogate u"
  by (simp add: is_high_surrogate_def is_low_surrogate_def)

lemma utf8_roundtrip: "well_formed s \<Longrightarrow> utf8_decode (utf8_encode s) = s"
  unfolding utf8_decode_def
proof (induction s rule: utf8_encode.induct)
  case (1 u l rest)
  show ?case
  proof (cases "is_high_surrogate u")
    case True
    with 1 show ?thesis by (simp add: decode_pair)
  next
    case False
    with 1 show ?thesis by (simp add: decode_unit)
  qed
next
  case (2 u)
  then show ?case
    using decode_unit [of u "[]"] by simp
next
  case 3
  show ?case by simp
qed

lemma utf8_lone_surrogate: "utf8_decode (utf8_encode [0xD800]) = [0xFFFD]"
  by (simp add: utf8_decode_def is_high_surrogate_def utf8_bytes_def utf16_units_def)

lemma constructed_key_length:
  "KeyVault_constructor config = Inr vault \<Longrightarrow> length (masterKey vault) = 32"
  by (auto simp: KeyVault_constructor_def validate_key_length_def
           split: option.splits master_key.splits sum.splits if_splits)

lemma decrypt_encrypt:
  assumes "length (masterKey vault) = 32" "random_iv \<noteq> []"
  shows "\<exists>blob. encrypt aes vault random_iv plaintext = Inr blob
              \<and> decrypt aes vault blob = Inr (utf8_decode (utf8_encode plaintext))"
proof -
  obtain ct tag where g: "gcm_encrypt (aes (masterKey vault)) random_iv (utf8_encode plaintext) = (ct, tag)"
    by (cases "gcm_encrypt (aes (masterKey vault)) random_iv (utf8_encode plaintext)")
  define blob where
    "blob = \<lparr>encrypted = base64_encode ct, iv = base64_encode random_iv, authTag = base64_encode tag\<rparr>"
  have e: "encrypt aes vault random_iv plaintext = Inr blob"
    using assms g by (simp add: encrypt_def create_cipher_def blob_def)
  have "decrypt aes vault blob = Inr (utf8_decode (utf8_encode plaintext))"
    using assms gcm_roundtrip [OF g] length_gcm_encrypt_tag [OF g]
    by (simp add: decrypt_def blob_def base64_roundtrip create_cipher_def authTagLength_def)
  with e show ?thesis by blast
qed

subsection \<open>Decryption of an encryption\<close>

text \<open>
  C3, as stated, fails: JavaScript strings are sequences of UTF-16 code units, and the one
  made of the single unpaired surrogate \<open>U+D800\<close> is written as the bytes of \<open>U+FFFD\<close>, so
  that, for a vault with a key of 32 bytes and an initialization vector of 16 bytes,
  decryption gives \<open>U+FFFD\<close> and not the plaintext; this is so for every block cipher in
  the place of AES.
\<close>

theorem decrypt_encrypt_lone_surrogate:
  "KeyVault_constructor (Some (KeyBuffer (replicate 32 0))) = Inr \<lparr>masterKey = replicate 32 0\<rparr>
   \<and> \<not> (\<exists>aes blob. encrypt aes \<lparr>masterKey = replicate 32 0\<rparr> (replicate 16 0) [0xD800] = Inr blob
                    \<and> decrypt aes \<lparr>masterKey = replicate 32 0\<rparr> blob = Inr [0xD800])"
proof
  show "KeyVault_constructor (Some (KeyBuffer (replicate 32 0))) = Inr \<lparr>masterKey = replicate 32 0\<rparr>"
    by (simp add: KeyVault_constructor_def validate_key_length_def)
  show "\<not> (\<exists>aes blob. encrypt aes \<lparr>masterKey = replicate 32 0\<rparr> (replicate 16 0) [0xD800] = Inr blob
                    \<and> decrypt aes \<lparr>masterKey = replicate 32 0\<rparr> blob = Inr [0xD800])"
  proof
    assume "\<exists>aes blob. encrypt aes \<lparr>masterKey = replicate 32 0\<rparr> (replicate 16 0) [0xD800] = Inr blob
                    \<and> decrypt aes \<lparr>masterKey = replicate 32 0\<rparr> blob = Inr [0xD800]"
    then obtain aes blob where
      b: "encrypt aes \<lparr>masterKey = replicate 32 0\<rparr> (replicate 16 0) [0xD800] = Inr blob"
         "decrypt aes \<lparr>masterKey = replicate 32 0\<rparr> blob = Inr [0xD800]"
      by blast
    have "\<exists>blob. encrypt aes \<lparr>masterKey = replicate 32 0\<rparr> (replicate 16 0) [0xD800] = Inr blob
              \<and> decrypt aes \<lparr>masterKey = replicate 32 0\<rparr> blob = Inr (utf8_decode (utf8_encode [0xD800]))"
      by (rule decrypt_encrypt) simp_all
    then obtain blob' where
      b': "encrypt aes \<lparr>masterKey = replicate 32 0\<rparr> (replicate 16 0) [0xD800] = Inr blob'"
          "decrypt aes \<lparr>masterKey = replicate 32 0\<rparr> blob' = Inr [0xFFFD]"
      unfolding utf8_lone_surrogate by blast
    from b(1) b'(1) have "blob' = blob" by simp
    with b(2) b'(2) have "(Inr [0xD800] :: thrown + js_string) = Inr [0xFFFD]" by simp
    then show False by simp
  qed
qed

text \<open>
  C3, amended.  For every vault constructed with a valid master key, every initialization
  vector of 16 bytes and every well-formed plaintext (a string in which every surrogate
  is half of a pair), \<open>encrypt\<close> returns a blob and \<open>decrypt\<close> of that blob returns exactly
  the plaintext.
\<close>

theorem decrypt_encrypt_well_formed:
  assumes "KeyVault_constructor config = Inr vault"
    and "length random_iv = ivLength"
    and "well_formed plaintext"
  shows "\<exists>blob. encrypt aes vault random_iv plaintext = Inr blob
              \<and> decrypt aes vault blob = Inr plaintext"
proof -
  have "random_iv \<noteq> []"
    using assms(2) by (auto simp: ivLength_def)
  from decrypt_encrypt [OF constructed_key_length [OF assms(1)] this, of aes plaintext]
  show ?thesis
    by (simp add: utf8_roundtrip [OF assms(3)])
qed

theorem decrypt_encrypt_well_formed_witness:
  "\<exists>blob. encrypt (\<lambda>k b. b) \<lparr>masterKey = replicate 32 0\<rparr> (replicate 16 0) [0x68, 0x69] = Inr blob
          \<and> decrypt (\<lambda>k b. b) \<lparr>masterKey = replicate 32 0\<rparr> blob = Inr [0x68, 0x69]"
proof -
  have c: "KeyVault_constructor (Some (KeyBuffer (replicate 32 0))) = Inr \<lparr>masterKey = replicate 32 0\<rparr>"
    by (simp add: KeyVault_constructor_def validate_key_length_def)
  have l: "length (replicate 16 (0 :: byte)) = ivLength"
    by (simp add: ivLength_def)
  have w: "well_formed [0x68, 0x69]"
    by (simp add: is_high_surrogate_def is_low_surrogate_def)
  show ?thesis
    by (rule decrypt_encrypt_well_formed [OF c l w])
qed

section \<open>Properties of the Safe address derivation\<close>

subsection \<open>The hash has 32 bytes\<close>

lemma length_lxor: "length (lxor a b) = min (length a) (length b)"
  by (induction a b rule: lxor.induct) simp_all

lemma length_lnotand: "length (lnotand a b) = min (length a) (length b)"
  by (induction a b rule: lnotand.induct) simp_all

lemma length_rol: "length (rol n l) = length l"
  by (simp add: rol_def)

lemma length_bits_of: "length (bits_of (w :: 'a::len word)) = LENGTH('a)"
  by (simp add: bits_of_def)

lemma lanes_ok_nth: "lanes_ok n st \<Longrightarrow> i < n \<Longrightarrow> length (st ! i) = 64"
  by (simp add: lanes_ok_def list_all_length)

lemma lanes_ok_map:
  assumes "\<And>i. i < n \<Longrightarrow> length (f i) = 64"
  shows "lanes_ok n (map f [0..<n])"
  using assms by (simp add: lanes_ok_def list_all_length)

lemma theta_C_ok: "lanes_ok 25 st \<Longrightarrow> lanes_ok 5 (theta_C st)"
  unfolding theta_C_def by (rule lanes_ok_map) (simp add: length_lxor lanes_ok_nth)

lemma theta_D_ok: "lanes_ok 5 C \<Longrightarrow> lanes_ok 5 (theta_D C)"
  unfolding theta_D_def by (rule lanes_ok_map) (simp add: length_lxor length_rol lanes_ok_nth)

lemma theta_apply_ok: "lanes_ok 5 D \<Longrightarrow> lanes_ok 25 st \<Longrightarrow> lanes_ok 25 (theta_apply D st)"
  unfolding theta_apply_def by (rule lanes_ok_map) (simp add: length_lxor lanes_ok_nth)

lemma theta_ok: "lanes_ok 25 st \<Longrightarrow> lanes_ok 25 (theta st)"
  by (simp add: theta_def theta_apply_ok theta_D_ok theta_C_ok)

lemma index_bound: "j < 25 \<Longrightarrow> (j mod 5 + 3 * (j div 5)) mod 5 + 5 * (j mod 5) < (25 :: nat)"
proof -
  have "(j mod 5 + 3 * (j div 5)) mod 5 < 5" "j mod 5 < 5" by simp_all
  then show ?thesis by linarith
qed

lemma index_bound': "j < 25 \<Longrightarrow> m mod 5 + 5 * (j div 5) < (25 :: nat)"
proof -
  assume "j < 25"
  then have "j div 5 < 5" by simp
  moreover have "m mod 5 < 5" by simp
  ultimately show ?thesis by linarith
qed

lemma rho_pi_ok: "lanes_ok 25 st \<Longrightarrow> lanes_ok 25 (rho_pi st)"
  unfolding rho_pi_def
  by (rule lanes_ok_map) (simp add: Let_def length_rol lanes_ok_nth index_bound)

lemma chi_ok: "lanes_ok 25 st \<Longrightarrow> lanes_ok 25 (chi st)"
  unfolding chi_def
  by (rule lanes_ok_map)
     (simp add: Let_def length_lxor length_lnotand lanes_ok_nth index_bound')

lemma iota_ok: "lanes_ok 25 st \<Longrightarrow> lanes_ok 25 (iota rc st)"
proof -
  assume ok: "lanes_ok 25 st"
  then have "length (lxor (st ! 0) (bits_of rc)) = 64"
    by (simp add: length_lxor length_bits_of lanes_ok_nth)
  with ok show ?thesis
    by (auto simp: iota_def xor_first_def lanes_ok_def list_all_length nth_list_update)
qed

lemma keccak_round_ok: "lanes_ok 25 st \<Longrightarrow> lanes_ok 25 (keccak_round st rc)"
  by (simp add: keccak_round_def iota_ok chi_ok rho_pi_ok theta_ok)

lemma foldl_rounds_ok: "lanes_ok 25 st \<Longrightarrow> lanes_ok 25 (foldl keccak_round st rcs)"
  by (induction rcs arbitrary: st) (simp_all add: keccak_round_ok)

lemma keccak_f_ok: "lanes_ok 25 st \<Longrightarrow> lanes_ok 25 (keccak_f st)"
  by (simp add: keccak_f_def foldl_rounds_ok)

lemma chunks_exact:
  "0 < n \<Longrightarrow> length xs = k * n \<Longrightarrow>
   length (chunks n xs) = k \<and> list_all (\<lambda>c. length c = n) (chunks n xs)"
proof (induction k arbitrary: xs)
  case 0
  then show ?case by simp
next
  case (Suc k)
  then obtain y ys where xs: "xs = y # ys" by (cases xs) auto
  have "length (drop n xs) = k * n" using Suc.prems by simp
  from Suc.IH [OF Suc.prems(1) this] Suc.prems show ?case
    by (simp add: xs [symmetric] del: chunks.simps)
       (simp add: xs chunks.simps(2) [of n y ys])
qed

lemma length_pad: "length (pad m) = (length m div 136 + 1) * 136"
proof -
  define r where "r = length m mod 136"
  have r: "r < 136" by (simp add: r_def)
  have m: "length m = length m div 136 * 136 + r" by (simp add: r_def)
  show ?thesis
  proof (cases "136 - r = 1")
    case True
    then have "length (pad m) = length m + 1"
      by (simp add: pad_def r_def Let_def)
    with True m r show ?thesis by simp
  next
    case False
    then have "length (pad m) = length m + (136 - r)"
      using r by (simp add: pad_def r_def Let_def)
    with m r show ?thesis by simp
  qed
qed

lemma blocks_of_pad: "list_all (\<lambda>blk. length blk = 136) (chunks 136 (pad m))"
  using chunks_exact [of 136 "pad m" "length m div 136 + 1"] by (simp add: length_pad)

lemma length_concat_bits: "length (concat (map bits_of (bs :: byte list))) = 8 * length bs"
  by (induction bs) (simp_all add: length_bits_of)

lemma block_lanes_ok:
  assumes "length blk = 136"
  shows "lanes_ok 25 (block_lanes blk)"
proof -
  have c: "length (chunks 8 blk) = 17 \<and> list_all (\<lambda>c. length c = 8) (chunks 8 blk)"
    by (rule chunks_exact) (simp_all add: assms)
  then have "list_all (\<lambda>l. length l = 64) (map (\<lambda>bs. concat (map bits_of bs)) (chunks 8 blk))"
    by (simp add: list_all_iff length_concat_bits)
  moreover have "list_all (\<lambda>l. length l = 64) (replicate 8 zero_lane)"
    by (simp add: zero_lane_def list_all_length)
  ultimately show ?thesis
    using c by (simp add: block_lanes_def lanes_ok_def)
qed

lemma map2_lxor_ok:
  assumes "lanes_ok 25 st" "lanes_ok 25 ls"
  shows "lanes_ok 25 (map2 lxor st ls)"
  using assms by (simp add: lanes_ok_def list_all_length length_lxor)

lemma absorb_ok: "lanes_ok 25 st \<Longrightarrow> length blk = 136 \<Longrightarrow> lanes_ok 25 (absorb st blk)"
  by (simp add: absorb_def keccak_f_ok map2_lxor_ok block_lanes_ok)

lemma foldl_absorb_ok:
  "lanes_ok 25 st \<Longrightarrow> list_all (\<lambda>blk. length blk = 136) blks \<Longrightarrow> lanes_ok 25 (foldl absorb st blks)"
  by (induction blks arbitrary: st) (simp_all add: absorb_ok)

lemma initial_ok: "lanes_ok 25 (replicate 25 zero_lane)"
  by (simp add: lanes_ok_def zero_lane_def list_all_length)

lemma length_squeeze:
  assumes "lanes_ok 25 st"
  shows "length (squeeze st) = 32"
proof -
  obtain a b c d rest where st: "st = a # b # c # d # rest"
    using assms by (auto simp: lanes_ok_def length_Suc_conv numeral_eq_Suc)
  with assms have "length (concat (take 4 st)) = 32 * 8"
    by (simp add: lanes_ok_def)
  from chunks_exact [OF _ this] show ?thesis
    by (simp add: squeeze_def)
qed

lemma length_keccak256: "length (keccak256 m) = 32"
  unfolding keccak256_def
  by (rule length_squeeze) (rule foldl_absorb_ok [OF initial_ok blocks_of_pad])

subsection \<open>The derivation\<close>

text \<open>The encoded arguments of \<open>setup\<close>: eight head words, of which the first and the
  fourth are the offsets of the owner array and of the empty \<open>data\<close>, then the array and
  the length of \<open>data\<close>.\<close>

lemma setup_arguments_layout:
  "abi_encode [AAddressArray [owner], AUint256 1, AAddress 0, ABytes [],
               AAddress 0, AAddress 0, AUint256 0, AAddress 0]
   = be_bytes 32 0x100 @ be_bytes 32 1 @ be_bytes 32 0 @ be_bytes 32 0x140
     @ be_bytes 32 0 @ be_bytes 32 0 @ be_bytes 32 0 @ be_bytes 32 0
     @ be_bytes 32 1 @ be_bytes 32 (unat owner) @ be_bytes 32 0"
  by (simp add: abi_encode_def be_bytes_def)

lemma abi_encode_uint256: "abi_encode [AUint256 v] = be_bytes 32 (unat v)"
  by (simp add: abi_encode_def)

text \<open>
  C2.  For every owner, factory and singleton, \<open>calculateSafeAddress\<close> is the derivation of
  the specification: the setup call data with owners \<open>[owner]\<close>, threshold 1 and the rest
  zero, empty or null; the salt \<open>keccak256(keccak256(setupCalldata) ++ uint256(0))\<close>; the
  init code, the creation code followed by the singleton as a \<open>uint256\<close>; and the CREATE2
  address of the factory, the salt and the hash of the init code.
\<close>

theorem calculateSafeAddress_is_spec:
  "calculateSafeAddress ownerAddress proxyFactory singleton
     = spec_SafeAddress ownerAddress proxyFactory singleton"
  by (simp add: calculateSafeAddress_def spec_SafeAddress_def spec_CREATE2_def spec_salt_def
                spec_initCode_def spec_setupCalldata_def getCreate2Address_def
                encodeFunctionData_def solidityPack_def abi_encode_uint256)

section \<open>Evaluating Keccak-256\<close>

text \<open>
  The hash is evaluated inside the logic.  One round on a state of 25 named lanes is
  written out once; the rotations are the splits of the lane lists.  A hash of given
  bytes is then computed in three steps: the padding, the lanes of the blocks and the
  round constants by the simplifier; the rounds by rewriting with the equations
  \<open>keccak_rounds\<close> only; the bytes of the result by the simplifier again.
\<close>

lemma theta_C_unroll:
  "theta_C [a0, a1, a2, a3, a4, a5, a6, a7, a8, a9, a10, a11, a12, a13, a14, a15, a16, a17, a18, a19, a20,
            a21, a22, a23, a24]
   = [lxor a0 (lxor a5 (lxor a10 (lxor a15 a20))), lxor a1 (lxor a6 (lxor a11 (lxor a16 a21))),
      lxor a2 (lxor a7 (lxor a12 (lxor a17 a22))), lxor a3 (lxor a8 (lxor a13 (lxor a18 a23))),
      lxor a4 (lxor a9 (lxor a14 (lxor a19 a24)))]"
  by (simp add: theta_C_def upt_rec)

lemma theta_D_unroll:
  "theta_D [c0, c1, c2, c3, c4]
   = [lxor c4 (drop 63 c1 @ take 63 c1), lxor c0 (drop 63 c2 @ take 63 c2),
      lxor c1 (drop 63 c3 @ take 63 c3), lxor c2 (drop 63 c4 @ take 63 c4),
      lxor c3 (drop 63 c0 @ take 63 c0)]"
  by (simp add: theta_D_def rol_def upt_rec)

lemma theta_apply_unroll:
  "theta_apply [d0, d1, d2, d3, d4] [a0, a1, a2, a3, a4, a5, a6, a7, a8, a9, a10, a11, a12, a13, a14, a15, a16, a17, a18, a19, a20,
                a21, a22, a23, a24]
   = [lxor a0 d0, lxor a1 d1, lxor a2 d2, lxor a3 d3, lxor a4 d4, lxor a5 d0, lxor a6 d1, lxor a7 d2,
      lxor a8 d3, lxor a9 d4, lxor a10 d0, lxor a11 d1, lxor a12 d2, lxor a13 d3, lxor a14 d4,
      lxor a15 d0, lxor a16 d1, lxor a17 d2, lxor a18 d3, lxor a19 d4, lxor a20 d0, lxor a21 d1,
      lxor a22 d2, lxor a23 d3, lxor a24 d4]"
  by (simp add: theta_apply_def upt_rec)

lemma rho_pi_unroll:
  "rho_pi [a0, a1, a2, a3, a4, a5, a6, a7, a8, a9, a10, a11, a12, a13, a14, a15, a16, a17, a18, a19, a20,
           a21, a22, a23, a24]
   = [drop 64 a0 @ take 64 a0, drop 20 a6 @ take 20 a6, drop 21 a12 @ take 21 a12,
      drop 43 a18 @ take 43 a18, drop 50 a24 @ take 50 a24, drop 36 a3 @ take 36 a3,
      drop 44 a9 @ take 44 a9, drop 61 a10 @ take 61 a10, drop 19 a16 @ take 19 a16,
      drop 3 a22 @ take 3 a22, drop 63 a1 @ take 63 a1, drop 58 a7 @ take 58 a7,
      drop 39 a13 @ take 39 a13, drop 56 a19 @ take 56 a19, drop 46 a20 @ take 46 a20,
      drop 37 a4 @ take 37 a4, drop 28 a5 @ take 28 a5, drop 54 a11 @ take 54 a11,
      drop 49 a17 @ take 49 a17, drop 8 a23 @ take 8 a23, drop 2 a2 @ take 2 a2,
      drop 9 a8 @ take 9 a8, drop 25 a14 @ take 25 a14, drop 23 a15 @ take 23 a15,
      drop 62 a21 @ take 62 a21]"
  by (simp add: rho_pi_def rotation_offsets_def Let_def rol_def upt_rec)

lemma chi_unroll:
  "chi [a0, a1, a2, a3, a4, a5, a6, a7, a8, a9, a10, a11, a12, a13, a14, a15, a16, a17, a18, a19, a20,
        a21, a22, a23, a24]
   = [lxor a0 (lnotand a1 a2), lxor a1 (lnotand a2 a3), lxor a2 (lnotand a3 a4),
      lxor a3 (lnotand a4 a0), lxor a4 (lnotand a0 a1), lxor a5 (lnotand a6 a7),
      lxor a6 (lnotand a7 a8), lxor a7 (lnotand a8 a9), lxor a8 (lnotand a9 a5),
      lxor a9 (lnotand a5 a6), lxor a10 (lnotand a11 a12), lxor a11 (lnotand a12 a13),
      lxor a12 (lnotand a13 a14), lxor a13 (lnotand a14 a10), lxor a14 (lnotand a10 a11),
      lxor a15 (lnotand a16 a17), lxor a16 (lnotand a17 a18), lxor a17 (lnotand a18 a19),
      lxor a18 (lnotand a19 a15), lxor a19 (lnotand a15 a16), lxor a20 (lnotand a21 a22),
      lxor a21 (lnotand a22 a23), lxor a22 (lnotand a23 a24), lxor a23 (lnotand a24 a20),
      lxor a24 (lnotand a20 a21)]"
  by (simp add: chi_def Let_def upt_rec)

lemma xor_first_unroll: "xor_first l (a # st) = lxor a l # st"
  by (simp add: xor_first_def)

lemma bool_eval:
  "(True \<noteq> True) = False" "(True \<noteq> False) = True" "(False \<noteq> True) = True"
  "(False \<noteq> False) = False" "(\<not> True \<and> b) = False" "(\<not> False \<and> b) = b"
  by simp_all

lemma take_numeral_Cons: "take (numeral v) (x # xs) = x # take (pred_numeral v) xs"
  by (simp add: numeral_eq_Suc)

lemma drop_numeral_Cons: "drop (numeral v) (x # xs) = drop (pred_numeral v) xs"
  by (simp add: numeral_eq_Suc)

lemma replicate_numeral_Cons: "replicate (numeral v) x = x # replicate (pred_numeral v) x"
  by (simp add: numeral_eq_Suc)

lemmas keccak_rounds =
  theta_def theta_C_unroll theta_D_unroll theta_apply_unroll rho_pi_unroll chi_unroll
  xor_first_unroll lxor.simps lnotand.simps bool_eval take_numeral_Cons drop_numeral_Cons
  take_0 drop_0 take_Nil drop_Nil pred_numeral_simps BitM.simps append.simps
  zip_Cons_Cons zip_Nil list.map case_prod_conv

lemma bits_of_byte:
  "bits_of (b :: byte) = [bit b 0, bit b 1, bit b 2, bit b 3, bit b 4, bit b 5, bit b 6, bit b 7]"
  by (simp add: bits_of_def upt_rec eval_nat_numeral)

lemma bits_of_lane:
  "bits_of (w :: 64 word)
   = [bit w 0, bit w 1, bit w 2, bit w 3, bit w 4, bit w 5, bit w 6, bit w 7, bit w 8, bit w 9,
      bit w 10, bit w 11, bit w 12, bit w 13, bit w 14, bit w 15, bit w 16, bit w 17, bit w 18,
      bit w 19, bit w 20, bit w 21, bit w 22, bit w 23, bit w 24, bit w 25, bit w 26, bit w 27,
      bit w 28, bit w 29, bit w 30, bit w 31, bit w 32, bit w 33, bit w 34, bit w 35, bit w 36,
      bit w 37, bit w 38, bit w 39, bit w 40, bit w 41, bit w 42, bit w 43, bit w 44, bit w 45,
      bit w 46, bit w 47, bit w 48, bit w 49, bit w 50, bit w 51, bit w 52, bit w 53, bit w 54,
      bit w 55, bit w 56, bit w 57, bit w 58, bit w 59, bit w 60, bit w 61, bit w 62, bit w 63]"
  by (simp add: bits_of_def upt_rec eval_nat_numeral)

text \<open>The bytes of a 256-bit and of a 160-bit number.\<close>

lemma be_bytes_32:
  "be_bytes 32 v
   = [of_nat (v div 256 ^ 31), of_nat (v div 256 ^ 30), of_nat (v div 256 ^ 29),
      of_nat (v div 256 ^ 28), of_nat (v div 256 ^ 27), of_nat (v div 256 ^ 26),
      of_nat (v div 256 ^ 25), of_nat (v div 256 ^ 24), of_nat (v div 256 ^ 23),
      of_nat (v div 256 ^ 22), of_nat (v div 256 ^ 21), of_nat (v div 256 ^ 20),
      of_nat (v div 256 ^ 19), of_nat (v div 256 ^ 18), of_nat (v div 256 ^ 17),
      of_nat (v div 256 ^ 16), of_nat (v div 256 ^ 15), of_nat (v div 256 ^ 14),
      of_nat (v div 256 ^ 13), of_nat (v div 256 ^ 12), of_nat (v div 256 ^ 11),
      of_nat (v div 256 ^ 10), of_nat (v div 256 ^ 9), of_nat (v div 256 ^ 8),
      of_nat (v div 256 ^ 7), of_nat (v div 256 ^ 6), of_nat (v div 256 ^ 5),
      of_nat (v div 256 ^ 4), of_nat (v div 256 ^ 3), of_nat (v div 256 ^ 2),
      of_nat (v div 256 ^ 1), of_nat (v div 256 ^ 0)]"
  by (simp add: be_bytes_def upt_rec)

lemma be_bytes_20:
  "be_bytes 20 v
   = [of_nat (v div 256 ^ 19), of_nat (v div 256 ^ 18), of_nat (v div 256 ^ 17),
      of_nat (v div 256 ^ 16), of_nat (v div 256 ^ 15), of_nat (v div 256 ^ 14),
      of_nat (v div 256 ^ 13), of_nat (v div 256 ^ 12), of_nat (v div 256 ^ 11),
      of_nat (v div 256 ^ 10), of_nat (v div 256 ^ 9), of_nat (v div 256 ^ 8),
      of_nat (v div 256 ^ 7), of_nat (v div 256 ^ 6), of_nat (v div 256 ^ 5),
      of_nat (v div 256 ^ 4), of_nat (v div 256 ^ 3), of_nat (v div 256 ^ 2),
      of_nat (v div 256 ^ 1), of_nat (v div 256 ^ 0)]"
  by (simp add: be_bytes_def upt_rec)

lemmas keccak_blocks =
  keccak256_def pad_def absorb_def block_lanes_def keccak_f_def round_constants_def
  keccak_round_def iota_def zero_lane_def replicate_numeral_Cons bits_of_byte bits_of_lane

text \<open>Two known values: the hash of the empty input, and the selector of \<open>setup\<close>.\<close>

lemma keccak256_empty:
  "keccak256 []
   = [0xc5, 0xd2, 0x46, 0x01, 0x86, 0xf7, 0x23, 0x3c, 0x92, 0x7e, 0x7d, 0xb2, 0xdc, 0xc7, 0x03, 0xc0,
      0xe5, 0x00, 0xb6, 0x53, 0xca, 0x82, 0x27, 0x3b, 0x7b, 0xfa, 0xd8, 0x04, 0x5d, 0x85, 0xa4,
      0x70]"
  apply (simp add: keccak_blocks)
  apply (simp only: keccak_rounds)
  apply (simp add: squeeze_def byte_of_bits_def)
  done

lemma selector_eval: "function_selector setup_signature = [0xb6, 0x3e, 0x80, 0x0d]"
  apply (simp add: function_selector_def setup_signature_def ascii_def keccak_blocks)
  apply (simp only: keccak_rounds)
  apply (simp add: squeeze_def byte_of_bits_def)
  done

text \<open>The hashes that the two routines take for one owner, with the default factory and
  singleton.\<close>

lemma initializer_hash_eval:
  "keccak256 (abi_encode
       [AAddressArray [0x742d35cc6634c0532925a3b844bc454e4438f44e], AUint256 1, AAddress 0, ABytes [],
        AAddress 0, AAddress 0, AUint256 0, AAddress 0])
   = [0x43, 0x16, 0x1d, 0xd0, 0x83, 0x82, 0x0c, 0xdd, 0x9b, 0x6e, 0xaa, 0xbe, 0x37, 0x10, 0x9e, 0xa4,
      0x14, 0xb0, 0xc2, 0x1a, 0xa1, 0xd6, 0xb1, 0xb8, 0x77, 0xa4, 0x5d, 0x45, 0x90, 0x02, 0x49,
      0x52]"
  apply (simp add: abi_encode_def be_bytes_32 keccak_blocks)
  apply (simp only: keccak_rounds)
  apply (simp add: squeeze_def byte_of_bits_def)
  done

lemma setup_hash_eval:
  "keccak256 (encodeFunctionData setup_signature
       [AAddressArray [0x742d35cc6634c0532925a3b844bc454e4438f44e], AUint256 1, AAddress 0, ABytes [],
        AAddress 0, AAddress 0, AUint256 0, AAddress 0])
   = [0x30, 0x4f, 0x2f, 0xca, 0x08, 0x44, 0x6f, 0x54, 0x66, 0xa2, 0x7d, 0xff, 0x63, 0xe2, 0x24, 0x1f,
      0x32, 0x3c, 0x02, 0x89, 0xc2, 0x90, 0x03, 0x0d, 0x59, 0x05, 0x6c, 0x1e, 0x26, 0x4f, 0x8d,
      0x0a]"
  apply (simp add: encodeFunctionData_def selector_eval abi_encode_def be_bytes_32 keccak_blocks)
  apply (simp only: keccak_rounds)
  apply (simp add: squeeze_def byte_of_bits_def)
  done

lemma predict_salt_eval:
  "keccak256 (solidityPack
     [PBytes32 [0x43, 0x16, 0x1d, 0xd0, 0x83, 0x82, 0x0c, 0xdd, 0x9b, 0x6e, 0xaa, 0xbe, 0x37, 0x10, 0x9e, 0xa4,
                0x14, 0xb0, 0xc2, 0x1a, 0xa1, 0xd6, 0xb1, 0xb8, 0x77, 0xa4, 0x5d, 0x45, 0x90,
                0x02, 0x49, 0x52],
      PUint256 0])
   = [0x8c, 0xb7, 0x47, 0xf9, 0x0d, 0x9f, 0xf5, 0x15, 0x51, 0xcf, 0x65, 0xf7, 0x9c, 0x70, 0x0a, 0xba,
      0xda, 0x55, 0x99, 0xc9, 0x7e, 0xf8, 0xc1, 0x20, 0xc2, 0xc2, 0xfc, 0x1a, 0xa5, 0xb1, 0xac,
      0xe4]"
  apply (simp add: solidityPack_def be_bytes_32 keccak_blocks)
  apply (simp only: keccak_rounds)
  apply (simp add: squeeze_def byte_of_bits_def)
  done

lemma calculate_salt_eval:
  "keccak256 (solidityPack
     [PBytes32 [0x30, 0x4f, 0x2f, 0xca, 0x08, 0x44, 0x6f, 0x54, 0x66, 0xa2, 0x7d, 0xff, 0x63, 0xe2, 0x24, 0x1f,
                0x32, 0x3c, 0x02, 0x89, 0xc2, 0x90, 0x03, 0x0d, 0x59, 0x05, 0x6c, 0x1e, 0x26,
                0x4f, 0x8d, 0x0a],
      PUint256 0])
   = [0x50, 0x65, 0x6e, 0x50, 0xd3, 0xc3, 0x95, 0x77, 0xf5, 0x68, 0xa0, 0xd6, 0x34, 0x94, 0xa7, 0x77,
      0xa1, 0x19, 0x91, 0x73, 0xfc, 0xec, 0x1f, 0x98, 0x19, 0xff, 0xe4, 0xac, 0x53, 0xbf, 0xd3,
      0xe7]"
  apply (simp add: solidityPack_def be_bytes_32 keccak_blocks)
  apply (simp only: keccak_rounds)
  apply (simp add: squeeze_def byte_of_bits_def)
  done

lemma init_code_hash_eval:
  "keccak256 (solidityPack [PBytes proxy_creation_bytecode,
                            PUint256 (ucast (0x69f4d1788e39c87893c980c06edf4b7f686e2938 :: address))])
   = [0xc3, 0x6c, 0x70, 0xb7, 0x07, 0x85, 0x9c, 0x25, 0x93, 0x32, 0x3b, 0xb5, 0x85, 0x40, 0x79, 0xaf,
      0x0b, 0x49, 0x97, 0x04, 0x9e, 0x1d, 0xc1, 0x28, 0x44, 0xfe, 0x99, 0x93, 0x85, 0xbc, 0xb1,
      0x6b]"
  apply (simp add: solidityPack_def be_bytes_32 proxy_creation_bytecode_def hex_value_def keccak_blocks)
  apply (simp only: keccak_rounds)
  apply (simp add: squeeze_def byte_of_bits_def)
  done

lemma predict_address_eval:
  "getCreate2Address 0xaacfeea03eb1561c4e67d661e40682bd20e3541b
     [0x8c, 0xb7, 0x47, 0xf9, 0x0d, 0x9f, 0xf5, 0x15, 0x51, 0xcf, 0x65, 0xf7, 0x9c, 0x70, 0x0a, 0xba,
       0xda, 0x55, 0x99, 0xc9, 0x7e, 0xf8, 0xc1, 0x20, 0xc2, 0xc2, 0xfc, 0x1a, 0xa5, 0xb1, 0xac,
       0xe4]
     [0xc3, 0x6c, 0x70, 0xb7, 0x07, 0x85, 0x9c, 0x25, 0x93, 0x32, 0x3b, 0xb5, 0x85, 0x40, 0x79, 0xaf,
       0x0b, 0x49, 0x97, 0x04, 0x9e, 0x1d, 0xc1, 0x28, 0x44, 0xfe, 0x99, 0x93, 0x85, 0xbc, 0xb1,
       0x6b]
   = 0x3d61e0d5971fd2912fc9eb8155817650099c9113"
  apply (simp add: getCreate2Address_def be_bytes_20 keccak_blocks)
  apply (simp only: keccak_rounds)
  apply (simp add: squeeze_def byte_of_bits_def be_value_def)
  done

lemma calculate_address_eval:
  "getCreate2Address 0xaacfeea03eb1561c4e67d661e40682bd20e3541b
     [0x50, 0x65, 0x6e, 0x50, 0xd3, 0xc3, 0x95, 0x77, 0xf5, 0x68, 0xa0, 0xd6, 0x34, 0x94, 0xa7, 0x77,
       0xa1, 0x19, 0x91, 0x73, 0xfc, 0xec, 0x1f, 0x98, 0x19, 0xff, 0xe4, 0xac, 0x53, 0xbf, 0xd3,
       0xe7]
     [0xc3, 0x6c, 0x70, 0xb7, 0x07, 0x85, 0x9c, 0x25, 0x93, 0x32, 0x3b, 0xb5, 0x85, 0x40, 0x79, 0xaf,
       0x0b, 0x49, 0x97, 0x04, 0x9e, 0x1d, 0xc1, 0x28, 0x44, 0xfe, 0x99, 0x93, 0x85, 0xbc, 0xb1,
       0x6b]
   = 0xf36f52992e97ccdd3985e8ff2171a3e6849d8a23"
  apply (simp add: getCreate2Address_def be_bytes_20 keccak_blocks)
  apply (simp only: keccak_rounds)
  apply (simp add: squeeze_def byte_of_bits_def be_value_def)
  done

section \<open>The two address routines\<close>

lemma predictSafeAddress_unfold:
  "predictSafeAddress eoaAddress factory singleton
   = getCreate2Address factory
       (keccak256 (solidityPack
          [PBytes32 (keccak256 (abi_encode
             [AAddressArray [eoaAddress], AUint256 1, AAddress 0, ABytes [],
              AAddress 0, AAddress 0, AUint256 0, AAddress 0])),
           PUint256 0]))
       (keccak256 (solidityPack [PBytes proxy_creation_bytecode, PUint256 (ucast singleton)]))"
  by (simp add: predictSafeAddress_def)

lemma calculateSafeAddress_unfold:
  "calculateSafeAddress ownerAddress factory singleton
   = getCreate2Address factory
       (keccak256 (solidityPack
          [PBytes32 (keccak256 (encodeFunctionData setup_signature
             [AAddressArray [ownerAddress], AUint256 1, AAddress 0, ABytes [],
              AAddress 0, AAddress 0, AUint256 0, AAddress 0])),
           PUint256 0]))
       (keccak256 (solidityPack [PBytes proxy_creation_bytecode, PUint256 (ucast singleton)]))"
  by (simp add: calculateSafeAddress_def)

lemma predict_default_eval:
  "predictSafeAddress_default 0x742d35cc6634c0532925a3b844bc454e4438f44e
   = 0x3d61e0d5971fd2912fc9eb8155817650099c9113"
  unfolding predictSafeAddress_default_def predictSafeAddress_unfold
  by (simp only: initializer_hash_eval predict_salt_eval init_code_hash_eval predict_address_eval)

lemma calculate_default_eval:
  "calculateSafeAddress_default 0x742d35cc6634c0532925a3b844bc454e4438f44e
   = 0xf36f52992e97ccdd3985e8ff2171a3e6849d8a23"
  unfolding calculateSafeAddress_default_def calculateSafeAddress_unfold POLYGON_CONTRACTS_def
  by (simp only: polygon_contracts.simps setup_hash_eval calculate_salt_eval init_code_hash_eval
                 calculate_address_eval)

text \<open>
  C1 fails on the code.  With the default factory and singleton of both routines and the
  owner \<open>0x742d35cc6634c0532925a3b844bc454e4438f44e\<close>, \<open>predictSafeAddress\<close> returns
  \<open>0x3d61e0d5971fd2912fc9eb8155817650099c9113\<close> and \<open>calculateSafeAddress\<close> returns
  \<open>0xf36f52992e97ccdd3985e8ff2171a3e6849d8a23\<close>: the first hashes the encoded arguments of
  \<open>setup\<close>, the second the call data, which begins with the selector.
\<close>

theorem predict_and_calculate_disagree:
  "predictSafeAddress_default 0x742d35cc6634c0532925a3b844bc454e4438f44e
     = 0x3d61e0d5971fd2912fc9eb8155817650099c9113
   \<and> calculateSafeAddress_default 0x742d35cc6634c0532925a3b844bc454e4438f44e
     = 0xf36f52992e97ccdd3985e8ff2171a3e6849d8a23
   \<and> predictSafeAddress_default 0x742d35cc6634c0532925a3b844bc454e4438f44e
     \<noteq> calculateSafeAddress_default 0x742d35cc6634c0532925a3b844bc454e4438f44e"
  by (simp add: predict_default_eval calculate_default_eval)

end
